theory Spec2Isabelle
  imports Complex_Main
begin

section \<open>Errors\<close>

text \<open>
  The Python exceptions the modelled code raises. \<open>Diverged\<close> is not a Python exception:
  it is the result of a recursion of the model that ran out of fuel.
\<close>

datatype error =
    KeyError
  | SyntaxError
  | NoMoreTokens
  | TypeError
  | IndexError
  | AttributeError
  | NotImplementedError
  | AssertionError
  | Diverged

section \<open>Values\<close>

text \<open>
  Modelled from the spec: the value classes of \<open>scss.types\<close> are not among the sources.
  The variants are those of the spec (3): number, color, string, boolean, null and list. Each
  is represented by the arguments of the constructor call that builds it in \<open>expression.py\<close>
  and \<open>functions/core.py\<close>: \<open>NumberValue(value, unit=...)\<close>,
  \<open>ColorValue(ParserValue(text))\<close>, \<open>ColorValue.from_name(word)\<close>,
  \<open>String(text, quotes=...)\<close>, \<open>BooleanValue(b)\<close>, \<open>Null()\<close>,
  \<open>ListValue(items, separator=...)\<close>. A magnitude is a Python float; it is modelled by the
  rational number it stands for. \<open>PyStr\<close> is not one of the classes: it is a plain Python
  string, which a variable may hold in place of a Sass value.
\<close>

datatype color_init = ParserValue string | from_name string

datatype val =
    NumberValue rat "string option"
  | ColorValue color_init
  | String string "string option"
  | BooleanValue bool
  | Null
  | ListValue "val list" string
  | PyStr string

section \<open>rule.py: variable scopes\<close>

text \<open>
  \<^verbatim>\<open>
  def normalize_var(name):
      if isinstance(name, six.string_types):
          return name.replace('_', '-')
      else:
          return name
  \<close>
\<close>

definition normalize_var :: "string \<Rightarrow> string" where
  "normalize_var name = map (\<lambda>c. if c = CHR ''_'' then CHR ''-'' else c) name"

text \<open>
  A \<open>VariableScope\<close> holds \<open>self.maps\<close>, a Python list of references to dict objects which
  several scopes may share. The dicts live in a heap (a list of maps, a reference is an
  index); a scope is its list of links. \<open>Namespace.derive_from\<close> with several parents puts
  a generator object in the list, so a link is either a reference to a dict or a generator
  that would yield the \<open>VariableScope\<close> objects of the parents (each given by its links).
\<close>

datatype link = DictRef nat | GeneratorObj "link list list"

type_synonym VariableScope = "link list"

type_synonym ('k, 'v) heap = "('k \<rightharpoonup> 'v) list"

text \<open>
  \<open>key in map\<close>. For a dict it is membership among the keys. For a generator object,
  Python iterates it and compares each yielded \<open>VariableScope\<close> with the key; a
  \<open>VariableScope\<close> defines no \<open>__eq__\<close>, so no comparison with a string or a tuple holds.
\<close>

fun has_key :: "('k, 'v) heap \<Rightarrow> link \<Rightarrow> 'k \<Rightarrow> bool" where
  "has_key h (DictRef a) key = (a < length h \<and> (h ! a) key \<noteq> None)"
| "has_key h (GeneratorObj scopes) key = list_ex (\<lambda>scope. False) scopes"

text \<open>
  \<^verbatim>\<open>
  def __init__(self, *maps):
      self.maps = [dict()] + list(maps)
  \<close>
  The fresh dict is allocated at the end of the heap.
\<close>

definition VariableScope_init :: "('k, 'v) heap \<Rightarrow> link list \<Rightarrow> VariableScope \<times> ('k, 'v) heap" where
  "VariableScope_init h ms = (DictRef (length h) # ms, h @ [Map.empty])"

text \<open>
  \<^verbatim>\<open>
  def __getitem__(self, key):
      for map in self.maps:
          if key in map:
              return map[key]
      raise KeyError(key)
  \<close>
\<close>

fun getitem :: "('k, 'v) heap \<Rightarrow> VariableScope \<Rightarrow> 'k \<Rightarrow> error + 'v" where
  "getitem h [] key = Inl KeyError"
| "getitem h (m # ms) key =
     (if has_key h m key then
        (case m of
           DictRef a \<Rightarrow> (case (h ! a) key of Some v \<Rightarrow> Inr v | None \<Rightarrow> Inl KeyError)
         | GeneratorObj scopes \<Rightarrow> Inl TypeError)
      else getitem h ms key)"

text \<open>
  \<^verbatim>\<open>
  def __setitem__(self, key, value):
      for map in self.maps:
          if key in map:
              map[key] = value
              return
      self.maps[0][key] = value
  \<close>
  \<open>store_item\<close> is the assignment \<open>map[key] = value\<close> on one link.
\<close>

fun store_item :: "('k, 'v) heap \<Rightarrow> link \<Rightarrow> 'k \<Rightarrow> 'v \<Rightarrow> error + ('k, 'v) heap" where
  "store_item h (DictRef a) key v =
     (if a < length h then Inr (h[a := (h ! a)(key \<mapsto> v)]) else Inl IndexError)"
| "store_item h (GeneratorObj scopes) key v = Inl TypeError"

fun setitem_loop :: "('k, 'v) heap \<Rightarrow> link list \<Rightarrow> 'k \<Rightarrow> 'v \<Rightarrow> (error + ('k, 'v) heap) option" where
  "setitem_loop h [] key v = None"
| "setitem_loop h (m # ms) key v =
     (if has_key h m key then Some (store_item h m key v) else setitem_loop h ms key v)"

definition setitem :: "('k, 'v) heap \<Rightarrow> VariableScope \<Rightarrow> 'k \<Rightarrow> 'v \<Rightarrow> error + ('k, 'v) heap" where
  "setitem h ms key v =
     (case setitem_loop h ms key v of
        Some r \<Rightarrow> r
      | None \<Rightarrow> (case ms of [] \<Rightarrow> Inl IndexError | m0 # _ \<Rightarrow> store_item h m0 key v))"

text \<open>
  \<^verbatim>\<open>
  def new_child(self):
      return VariableScope(*self.maps)
  \<close>
\<close>

definition new_child :: "('k, 'v) heap \<Rightarrow> VariableScope \<Rightarrow> VariableScope \<times> ('k, 'v) heap" where
  "new_child h ms = VariableScope_init h ms"

section \<open>rule.py: namespaces\<close>

text \<open>
  A \<open>Namespace\<close> object has the three scopes \<open>_variables\<close>, \<open>_functions\<close> and
  \<open>_mixins\<close>. The dicts of the three kinds live in three heaps, collected in \<open>memory\<close>.
  Functions and mixins are keyed by the pair \<open>(name, arity)\<close>, where the arity is a number
  or \<open>None\<close>.
\<close>

record Namespace =
  variables' :: VariableScope
  functions' :: VariableScope
  mixins' :: VariableScope

record ('c, 'm) memory =
  var_dicts :: "(string, val) heap"
  fun_dicts :: "(string \<times> nat option, 'c) heap"
  mix_dicts :: "(string \<times> nat option, 'm) heap"

text \<open>
  \<^verbatim>\<open>
  def __init__(self, variables=None, functions=None, mixins=None):
      if variables is None:
          self._variables = VariableScope()
      else:
          self._variables = VariableScope(variables)
      if functions is None:
          self._functions = VariableScope()
      else:
          self._functions = VariableScope(functions._functions)
      self._mixins = VariableScope()
  \<close>
  \<open>variables\<close> and \<open>functions._functions\<close> are dicts, given by their references.
\<close>

definition Namespace_init ::
  "('c, 'm) memory \<Rightarrow> nat option \<Rightarrow> nat option \<Rightarrow> Namespace \<times> ('c, 'm) memory" where
  "Namespace_init M variables functions =
     (let (vs, vh) = VariableScope_init (var_dicts M)
                       (case variables of None \<Rightarrow> [] | Some a \<Rightarrow> [DictRef a]);
          (fs, fh) = VariableScope_init (fun_dicts M)
                       (case functions of None \<Rightarrow> [] | Some a \<Rightarrow> [DictRef a]);
          (ms, mh) = VariableScope_init (mix_dicts M) []
      in (\<lparr>variables' = vs, functions' = fs, mixins' = ms\<rparr>,
          \<lparr>var_dicts = vh, fun_dicts = fh, mix_dicts = mh\<rparr>))"

text \<open>
  \<^verbatim>\<open>
  @classmethod
  def derive_from(cls, *others):
      self = cls()
      if len(others) == 1:
          self._variables = others[0]._variables.new_child()
          self._functions = others[0]._functions.new_child()
          self._mixins = others[0]._mixins.new_child()
      else:
          self._variables = VariableScope(other._variables for other in others)
          self._functions = VariableScope(other._functions for other in others)
          self._mixins = VariableScope(other._mixins for other in others)
      return self

  def derive(self):
      return type(self).derive_from(self)
  \<close>
  In the second branch each \<open>VariableScope\<close> receives one positional argument, the
  generator expression itself.
\<close>

definition derive_from ::
  "('c, 'm) memory \<Rightarrow> Namespace list \<Rightarrow> Namespace \<times> ('c, 'm) memory" where
  "derive_from M others =
     (let (self, M0) = Namespace_init M None None in
      if length others = 1 then
        (let (vs, vh) = new_child (var_dicts M0) (variables' (others ! 0));
             (fs, fh) = new_child (fun_dicts M0) (functions' (others ! 0));
             (ms, mh) = new_child (mix_dicts M0) (mixins' (others ! 0))
         in (\<lparr>variables' = vs, functions' = fs, mixins' = ms\<rparr>,
             \<lparr>var_dicts = vh, fun_dicts = fh, mix_dicts = mh\<rparr>))
      else
        (let (vs, vh) = VariableScope_init (var_dicts M0) [GeneratorObj (map variables' others)];
             (fs, fh) = VariableScope_init (fun_dicts M0) [GeneratorObj (map functions' others)];
             (ms, mh) = VariableScope_init (mix_dicts M0) [GeneratorObj (map mixins' others)]
         in (\<lparr>variables' = vs, functions' = fs, mixins' = ms\<rparr>,
             \<lparr>var_dicts = vh, fun_dicts = fh, mix_dicts = mh\<rparr>)))"

definition derive :: "('c, 'm) memory \<Rightarrow> Namespace \<Rightarrow> Namespace \<times> ('c, 'm) memory" where
  "derive M self = derive_from M [self]"

text \<open>
  \<^verbatim>\<open>
  def variable(self, name):
      name = normalize_var(name)
      return self._variables[name]

  def set_variable(self, name, value):
      name = normalize_var(name)
      assert not (isinstance(value, six.string_types) and value.startswith('$'))
      self._variables[name] = value
  \<close>
\<close>

definition variable :: "('c, 'm) memory \<Rightarrow> Namespace \<Rightarrow> string \<Rightarrow> error + val" where
  "variable M ns name = getitem (var_dicts M) (variables' ns) (normalize_var name)"


text \<open>
  \<^verbatim>\<open>
  def _get_callable(self, chainmap, name, arity):
      name = normalize_var(name)
      if arity is not None:
          # With explicit arity, try the particular arity before falling back
          # to the general case (None)
          try:
              return chainmap[name, arity]
          except KeyError:
              pass
      return chainmap[name, None]

  def _set_callable(self, chainmap, name, arity, cb):
      name = normalize_var(name)
      chainmap[name, arity] = cb
  \<close>
\<close>

definition get_callable ::
  "(string \<times> nat option, 'c) heap \<Rightarrow> VariableScope \<Rightarrow> string \<Rightarrow> nat option \<Rightarrow> error + 'c" where
  "get_callable h chainmap name arity =
     (let name = normalize_var name in
      case arity of
        Some n \<Rightarrow>
          (case getitem h chainmap (name, Some n) of
             Inr cb \<Rightarrow> Inr cb
           | Inl KeyError \<Rightarrow> getitem h chainmap (name, None)
           | Inl e \<Rightarrow> Inl e)
      | None \<Rightarrow> getitem h chainmap (name, None))"

definition set_callable ::
  "(string \<times> nat option, 'c) heap \<Rightarrow> VariableScope \<Rightarrow> string \<Rightarrow> nat option \<Rightarrow> 'c
     \<Rightarrow> error + (string \<times> nat option, 'c) heap" where
  "set_callable h chainmap name arity cb = setitem h chainmap (normalize_var name, arity) cb"

text \<open>
  \<^verbatim>\<open>
  def mixin(self, name, arity):
      return self._get_callable(self._mixins, name, arity)
  def set_mixin(self, name, arity, cb):
      self._set_callable(self._mixins, name, arity, cb)
  def function(self, name, arity):
      return self._get_callable(self._functions, name, arity)
  def set_function(self, name, arity, cb):
      self._set_callable(self._functions, name, arity, cb)
  \<close>
\<close>

definition mixin :: "('c, 'm) memory \<Rightarrow> Namespace \<Rightarrow> string \<Rightarrow> nat option \<Rightarrow> error + 'm" where
  "mixin M ns name arity = get_callable (mix_dicts M) (mixins' ns) name arity"

definition set_mixin ::
  "('c, 'm) memory \<Rightarrow> Namespace \<Rightarrow> string \<Rightarrow> nat option \<Rightarrow> 'm \<Rightarrow> error + ('c, 'm) memory" where
  "set_mixin M ns name arity cb =
     (case set_callable (mix_dicts M) (mixins' ns) name arity cb of
        Inl e \<Rightarrow> Inl e
      | Inr h \<Rightarrow> Inr (M\<lparr>mix_dicts := h\<rparr>))"

definition function' :: "('c, 'm) memory \<Rightarrow> Namespace \<Rightarrow> string \<Rightarrow> nat option \<Rightarrow> error + 'c" where
  "function' M ns name arity = get_callable (fun_dicts M) (functions' ns) name arity"

definition set_function ::
  "('c, 'm) memory \<Rightarrow> Namespace \<Rightarrow> string \<Rightarrow> nat option \<Rightarrow> 'c \<Rightarrow> error + ('c, 'm) memory" where
  "set_function M ns name arity cb =
     (case set_callable (fun_dicts M) (functions' ns) name arity cb of
        Inl e \<Rightarrow> Inl e
      | Inr h \<Rightarrow> Inr (M\<lparr>fun_dicts := h\<rparr>))"

text \<open>Every dict reference of a scope points into the heap.\<close>

definition scope_ok :: "('k, 'v) heap \<Rightarrow> VariableScope \<Rightarrow> bool" where
  "scope_ok h ms = list_all (\<lambda>m. case m of DictRef a \<Rightarrow> a < length h | GeneratorObj _ \<Rightarrow> True) ms"

section \<open>functions/core.py: index\<close>

text \<open>
  \<^verbatim>\<open>
  @register('index', 2)
  def index(lst, val):
      for i in xrange(len(lst)):
          if lst.value[i] == val:
              return NumberValue(i + 1)
      return BooleanValue(False)
  \<close>
  \<open>lst\<close> is a list value; \<open>lst.value\<close> is the sequence of its items and \<open>len(lst)\<close> their
  number. The comparison \<open>==\<close> of two values is defined in \<open>scss.types\<close>, which is not
  among the sources: its truth value is the parameter \<open>equals\<close>. \<open>index_loop\<close> is the loop,
  entered at position \<open>i\<close> with the items from \<open>i\<close> on. \<open>index\<close> is given for a list value
  only; what \<open>len\<close> and \<open>.value\<close> are on another value is decided in \<open>scss.types\<close>.
\<close>

fun index_loop :: "(val \<Rightarrow> val \<Rightarrow> bool) \<Rightarrow> val list \<Rightarrow> val \<Rightarrow> nat \<Rightarrow> val" where
  "index_loop equals [] val i = BooleanValue False"
| "index_loop equals (x # xs) val i =
     (if equals x val then NumberValue (of_nat (i + 1)) None
      else index_loop equals xs val (i + 1))"

fun index :: "(val \<Rightarrow> val \<Rightarrow> bool) \<Rightarrow> val \<Rightarrow> val \<Rightarrow> val" where
  "index equals (ListValue items separator) val = index_loop equals items val 0"

section \<open>expression.py: the scanner\<close>

text \<open>
  The names of the token patterns of \<open>SassExpressionScanner._patterns\<close>, in the order of
  the table. \<open>COLON\<close> is the pattern named \<open>":"\<close>, \<open>WHITESPACE\<close> the pattern named
  \<open>[ \r\t\n]+\<close> and \<open>STR'\<close> the pattern named \<open>STR\<close>.
\<close>

datatype kind =
    COLON | WHITESPACE | COMMA | LPAR | RPAR | END | MUL | DIV | ADD | SUB | SIGN
  | AND | OR | NOT | NE | INV | EQ | LE | GE | LT | GT | STR' | QSTR | UNITS | NUM
  | COLOR | VAR | FNCT | ID

definition patterns :: "kind list" where
  "patterns = [COLON, WHITESPACE, COMMA, LPAR, RPAR, END, MUL, DIV, ADD, SUB, SIGN,
     AND, OR, NOT, NE, INV, EQ, LE, GE, LT, GT, STR', QSTR, UNITS, NUM, COLOR, VAR, FNCT, ID]"

text \<open>Character classes of the regular expressions.\<close>

definition is_letter :: "char \<Rightarrow> bool" where
  "is_letter c = (c \<in> set ''abcdefghijklmnopqrstuvwxyzABCDEFGHIJKLMNOPQRSTUVWXYZ'')"

definition is_digit :: "char \<Rightarrow> bool" where
  "is_digit c = (c \<in> set ''0123456789'')"

definition is_hex :: "char \<Rightarrow> bool" where
  "is_hex c = (c \<in> set ''abcdefABCDEF0123456789'')"

definition is_word :: "char \<Rightarrow> bool" where
  \<comment> \<open>\<open>\w\<close>\<close>
  "is_word c = (is_letter c \<or> is_digit c \<or> c = CHR ''_'')"

definition is_dash_word :: "char \<Rightarrow> bool" where
  \<comment> \<open>\<open>[-\w]\<close>, also \<open>[-a-zA-Z0-9_]\<close>\<close>
  "is_dash_word c = (c = CHR ''-'' \<or> is_word c)"

definition is_ident_start :: "char \<Rightarrow> bool" where
  \<comment> \<open>\<open>[-a-zA-Z_]\<close>\<close>
  "is_ident_start c = (c = CHR ''-'' \<or> is_letter c \<or> c = CHR ''_'')"

definition is_blank :: "char \<Rightarrow> bool" where
  \<comment> \<open>\<open>[ \r\t\n]\<close>\<close>
  "is_blank c = (c \<in> set [CHR '' '', CHR 0x0D, CHR 0x09, CHR 0x0A])"

definition is_space :: "char \<Rightarrow> bool" where
  \<comment> \<open>\<open>\s\<close> on a byte string: space, tab, newline, carriage return, form feed, vertical tab\<close>
  "is_space c = (c \<in> set [CHR '' '', CHR 0x09, CHR 0x0A, CHR 0x0D, CHR 0x0C, CHR 0x0B])"

definition span :: "(char \<Rightarrow> bool) \<Rightarrow> string \<Rightarrow> nat" where
  "span P s = length (takeWhile P s)"

definition next_is :: "(char \<Rightarrow> bool) \<Rightarrow> string \<Rightarrow> bool" where
  \<comment> \<open>the next character exists and is in the class\<close>
  "next_is P s = (case s of [] \<Rightarrow> False | c # _ \<Rightarrow> P c)"

definition starts_with :: "string \<Rightarrow> string \<Rightarrow> bool" where
  "starts_with p s = (take (length p) s = p)"

text \<open>A keyword \<open>(?<![-\w])kw(?![-\w])\<close>, with the character before the position.\<close>

definition match_keyword :: "string \<Rightarrow> char option \<Rightarrow> string \<Rightarrow> nat option" where
  "match_keyword kw prev s =
     (if (case prev of None \<Rightarrow> True | Some c \<Rightarrow> \<not> is_dash_word c)
         \<and> starts_with kw s \<and> \<not> next_is is_dash_word (drop (length kw) s)
      then Some (length kw) else None)"

text \<open>A fixed text.\<close>

definition match_text :: "string \<Rightarrow> string \<Rightarrow> nat option" where
  "match_text p s = (if starts_with p s then Some (length p) else None)"

text \<open>
  \<open>regex.match(input, pos)\<close> for each pattern of the table: the length of the match at the
  position, if there is one. \<open>prev\<close> is the character just before the position (for the
  lookbehinds) and \<open>s\<close> the input from the position on. Greedy repetitions followed by a
  lookahead match only at the longest repetition, since every shorter one is followed by a
  character of the repeated class, which the lookahead excludes.
  \<^verbatim>\<open>
  ('":"', ':'),                       ('[ \r\t\n]+', '[ \r\t\n]+'),
  ('COMMA', ','),                     ('LPAR', '\\(|\\['),
  ('RPAR', '\\)|\\]'),                ('END', '$'),
  ('MUL', '[*]'),                     ('DIV', '/'),
  ('ADD', '[+]'),                     ('SUB', '-\\s'),
  ('SIGN', '-(?![a-zA-Z_])'),
  ('AND', '(?<![-\\w])and(?![-\\w])'),
  ('OR', '(?<![-\\w])or(?![-\\w])'),
  ('NOT', '(?<![-\\w])not(?![-\\w])'),
  ('NE', '!='),  ('INV', '!'),  ('EQ', '=='),  ('LE', '<='),  ('GE', '>='),
  ('LT', '<'),   ('GT', '>'),
  ('STR', "'[^']*'"),                 ('QSTR', '"[^"]*"'),
  ('UNITS', '(?<!\\s)(?:[a-zA-Z]+|%)(?![-\\w])'),
  ('NUM', '(?:\\d+(?:\\.\\d*)?|\\.\\d+)'),
  ('COLOR', '#(?:[a-fA-F0-9]{6}|[a-fA-F0-9]{3})(?![a-fA-F0-9])'),
  ('VAR', '\\$[-a-zA-Z0-9_]+'),
  ('FNCT', '[-a-zA-Z_][-a-zA-Z0-9_]*(?=\\()'),
  ('ID', '[-a-zA-Z_][-a-zA-Z0-9_]*'),
  \<close>
\<close>

fun match_pattern :: "kind \<Rightarrow> char option \<Rightarrow> string \<Rightarrow> nat option" where
  "match_pattern COLON prev s = match_text '':'' s"
| "match_pattern WHITESPACE prev s =
     (if 0 < span is_blank s then Some (span is_blank s) else None)"
| "match_pattern COMMA prev s = match_text '','' s"
| "match_pattern LPAR prev s = (if next_is (\<lambda>c. c = CHR ''('' \<or> c = CHR ''['') s then Some 1 else None)"
| "match_pattern RPAR prev s = (if next_is (\<lambda>c. c = CHR '')'' \<or> c = CHR '']'') s then Some 1 else None)"
| "match_pattern END prev s = (if s = [] \<or> s = [CHR 0x0A] then Some 0 else None)"
| "match_pattern MUL prev s = match_text ''*'' s"
| "match_pattern DIV prev s = match_text ''/'' s"
| "match_pattern ADD prev s = match_text ''+'' s"
| "match_pattern SUB prev s =
     (if starts_with ''-'' s \<and> next_is is_space (drop 1 s) then Some 2 else None)"
| "match_pattern SIGN prev s =
     (if starts_with ''-'' s \<and> \<not> next_is (\<lambda>c. is_letter c \<or> c = CHR ''_'') (drop 1 s)
      then Some 1 else None)"
| "match_pattern AND prev s = match_keyword ''and'' prev s"
| "match_pattern OR prev s = match_keyword ''or'' prev s"
| "match_pattern NOT prev s = match_keyword ''not'' prev s"
| "match_pattern NE prev s = match_text ''!='' s"
| "match_pattern INV prev s = match_text ''!'' s"
| "match_pattern EQ prev s = match_text ''=='' s"
| "match_pattern LE prev s = match_text ''<='' s"
| "match_pattern GE prev s = match_text ''>='' s"
| "match_pattern LT prev s = match_text ''<'' s"
| "match_pattern GT prev s = match_text ''>'' s"
| "match_pattern STR' prev s =
     (let n = span (\<lambda>c. c \<noteq> CHR 0x27) (drop 1 s) in
      if next_is (\<lambda>c. c = CHR 0x27) s \<and> next_is (\<lambda>c. c = CHR 0x27) (drop (1 + n) s)
      then Some (n + 2) else None)"
| "match_pattern QSTR prev s =
     (let n = span (\<lambda>c. c \<noteq> CHR 0x22) (drop 1 s) in
      if next_is (\<lambda>c. c = CHR 0x22) s \<and> next_is (\<lambda>c. c = CHR 0x22) (drop (1 + n) s)
      then Some (n + 2) else None)"
| "match_pattern UNITS prev s =
     (let n = (if 0 < span is_letter s then span is_letter s
               else if starts_with ''%'' s then 1 else 0) in
      if (case prev of None \<Rightarrow> True | Some c \<Rightarrow> \<not> is_space c)
         \<and> 0 < n \<and> \<not> next_is is_dash_word (drop n s)
      then Some n else None)"
| "match_pattern NUM prev s =
     (let n = span is_digit s in
      if 0 < n then
        (if starts_with ''.'' (drop n s) then Some (n + 1 + span is_digit (drop (n + 1) s))
         else Some n)
      else if starts_with ''.'' s \<and> 0 < span is_digit (drop 1 s)
      then Some (1 + span is_digit (drop 1 s))
      else None)"
| "match_pattern COLOR prev s =
     (let n = span is_hex (drop 1 s) in
      if starts_with ''#'' s \<and> n = 6 then Some 7
      else if starts_with ''#'' s \<and> n = 3 then Some 4
      else None)"
| "match_pattern VAR prev s =
     (if starts_with ''$'' s \<and> 0 < span is_dash_word (drop 1 s)
      then Some (1 + span is_dash_word (drop 1 s)) else None)"
| "match_pattern FNCT prev s =
     (let n = 1 + span is_dash_word (drop 1 s) in
      if next_is is_ident_start s \<and> starts_with ''('' (drop n s) then Some n else None)"
| "match_pattern ID prev s =
     (if next_is is_ident_start s then Some (1 + span is_dash_word (drop 1 s)) else None)"

text \<open>
  Modelled from the spec: a token of the class \<open>Scanner\<close> (\<open>scss._native\<close> or
  \<open>scss._speedups\<close>), which is not among the sources. The spec (3): a token is
  \<open>{kind, text, position}\<close>.
\<close>

record token =
  position :: nat
  kind_of :: kind
  text_of :: string

text \<open>
  Modelled from the spec: the state of a \<open>Scanner\<close>, which is not among the sources: the
  input, the position in it where the next token is scanned, and the tokens produced so far.
  The spec (3): tokens are produced lazily and looked up by position index.
\<close>

record Scanner =
  input :: string
  pos :: nat
  tokens :: "token list"

text \<open>Modelled from the spec: \<open>Scanner.reset(input)\<close>, as \<open>Parser.reset\<close> calls it.\<close>

definition Scanner_reset :: "string \<Rightarrow> Scanner" where
  "Scanner_reset inp = \<lparr>input = inp, pos = 0, tokens = []\<rparr>"

text \<open>The character before a position of the input, for the lookbehinds of the patterns.\<close>

definition char_before :: "string \<Rightarrow> nat \<Rightarrow> char option" where
  "char_before inp p = (if p = 0 \<or> length inp < p then None else Some (inp ! (p - 1)))"

text \<open>
  Modelled from the spec: the choice of the pattern in the \<open>Scanner\<close>. The spec (4.1): the
  patterns are tried in the fixed priority order of the table at the current position; the
  first pattern that matches and whose kind is in \<open>allowed_kinds\<close> wins. Whitespace is always
  tried, since it is matched and skipped whatever the allowed kinds are.
\<close>

fun first_match :: "kind list \<Rightarrow> kind list \<Rightarrow> string \<Rightarrow> nat \<Rightarrow> (kind \<times> nat) option" where
  "first_match [] allowed inp p = None"
| "first_match (k # ks) allowed inp p =
     (if k \<in> set allowed \<or> k = WHITESPACE then
        (case match_pattern k (char_before inp p) (drop p inp) of
           Some n \<Rightarrow> Some (k, n)
         | None \<Rightarrow> first_match ks allowed inp p)
      else first_match ks allowed inp p)"

text \<open>
  Modelled from the spec: \<open>tokenize(input, start_position, allowed_kinds) -> Token | fails\<close>
  (4.1). Whitespace is matched but always skipped; anything else is the token. The failure
  is a \<open>SyntaxError\<close>, which is what \<open>Parser._peek\<close> catches. The fuel bounds the number of
  whitespace runs skipped.
\<close>

fun tokenize :: "nat \<Rightarrow> string \<Rightarrow> nat \<Rightarrow> kind list \<Rightarrow> error + token" where
  "tokenize 0 inp p allowed = Inl Diverged"
| "tokenize (Suc fuel) inp p allowed =
     (case first_match patterns allowed inp p of
        None \<Rightarrow> Inl SyntaxError
      | Some (k, n) \<Rightarrow>
          if k = WHITESPACE then tokenize fuel inp (p + n) allowed
          else Inr \<lparr>position = p, kind_of = k, text_of = take n (drop p inp)\<rparr>)"

text \<open>
  Modelled from the spec: \<open>Scanner.token(i, restrict)\<close>, as \<open>Parser._peek\<close> and
  \<open>Parser._scan\<close> call it. The spec (3): tokens are produced lazily; lookahead is by position
  index, with a restricted set of acceptable kinds. The token at index \<open>i\<close> is scanned, under
  the restriction of the call, when \<open>i\<close> tokens have been produced; a smaller index returns the
  token produced earlier; a larger one raises \<open>NoMoreTokens\<close>. A whitespace run is not
  empty, so the fuel given to \<open>tokenize\<close> is enough.
\<close>

definition Scanner_token :: "Scanner \<Rightarrow> nat \<Rightarrow> kind list \<Rightarrow> error + (token \<times> Scanner)" where
  "Scanner_token S i restrict =
     (if i = length (tokens S) then
        (case tokenize (length (input S) + 2) (input S) (pos S) restrict of
           Inl e \<Rightarrow> Inl e
         | Inr t \<Rightarrow>
             Inr (t, S\<lparr>pos := position t + length (text_of t), tokens := tokens S @ [t]\<rparr>))
      else if i < length (tokens S) then Inr (tokens S ! i, S)
      else Inl NoMoreTokens)"

text \<open>
  Modelled from the spec: \<open>Scanner.rewind(i)\<close>, as \<open>Parser._rewind\<close> calls it. The spec
  (4.1): the scanner supports rewinding to a previous position, for one token of
  backtracking. The tokens from index \<open>i\<close> on are dropped, and scanning resumes where token
  \<open>i\<close> started.
\<close>

definition Scanner_rewind :: "Scanner \<Rightarrow> nat \<Rightarrow> Scanner" where
  "Scanner_rewind S i =
     (if i < length (tokens S)
      then S\<lparr>pos := position (tokens S ! i), tokens := take i (tokens S)\<rparr>
      else S)"

section \<open>expression.py: the syntax tree\<close>

text \<open>
  The operators a \<open>UnaryOp\<close> or \<open>BinaryOp\<close> node holds are functions of the Python module
  \<open>operator\<close>: \<open>operator.neg\<close>, \<open>operator.pos\<close>, \<open>operator.lt\<close>, and so on.
\<close>

datatype unop = op_neg | op_pos

datatype binop =
  op_lt | op_gt | op_le | op_ge | op_eq | op_ne | op_add | op_sub | op_mul | op_truediv

text \<open>
  The node classes. \<open>AnyOp\<close> and \<open>AllOp\<close> hold the tuple \<open>operands\<close>; \<open>CallOp\<close> holds the
  function name and its \<open>argspec\<close> node; \<open>ListLiteral\<close> holds \<open>items\<close> and \<open>comma\<close>;
  \<open>ArgspecLiteral\<close> holds \<open>argpairs\<close>, a list of pairs of an optional name and a node.
\<close>

datatype expr =
    Parentheses expr
  | UnaryOp unop expr
  | BinaryOp binop expr expr
  | AnyOp "expr list"
  | AllOp "expr list"
  | NotOp expr
  | CallOp string expr
  | Literal val
  | Variable string
  | ListLiteral "expr list" bool
  | ArgspecLiteral "(string option \<times> expr) list"

text \<open>
  \<^verbatim>\<open>
  def parse_bareword(word):
      if word in COLOR_NAMES:
          return ColorValue.from_name(word)
      elif word in ('null', 'undefined'):
          return Null()
      elif word == 'true':
          return BooleanValue(True)
      elif word == 'false':
          return BooleanValue(False)
      else:
          return String(word, quotes=None)
  \<close>
  The table \<open>COLOR_NAMES\<close> of \<open>scss.cssdefs\<close> is not among the sources; it is a parameter.
\<close>

definition parse_bareword :: "string list \<Rightarrow> string \<Rightarrow> val" where
  "parse_bareword COLOR_NAMES word =
     (if word \<in> set COLOR_NAMES then ColorValue (from_name word)
      else if word \<in> set [''null'', ''undefined''] then Null
      else if word = ''true'' then BooleanValue True
      else if word = ''false'' then BooleanValue False
      else String word None)"

text \<open>
  \<open>float(NUM)\<close> on a text matched by \<open>NUM\<close> (digits, optionally a point and digits, or a
  point and digits): the number the decimal numeral denotes. The rounding of Python's
  floats to the nearest binary fraction is not modelled.
\<close>

definition digits_value :: "string \<Rightarrow> nat" where
  "digits_value ds = foldl (\<lambda>a d. 10 * a + (of_char d - 48)) 0 ds"

definition float :: "string \<Rightarrow> rat" where
  "float s =
     (let whole = takeWhile (\<lambda>c. c \<noteq> CHR ''.'') s;
          frac = drop (length whole + 1) s
      in of_nat (digits_value whole) + of_nat (digits_value frac) / of_nat (10 ^ length frac))"

text \<open>\<open>str.lower()\<close> on ASCII letters.\<close>

definition lower :: "string \<Rightarrow> string" where
  "lower s = map (\<lambda>c. if c \<in> set ''ABCDEFGHIJKLMNOPQRSTUVWXYZ'' then char_of (of_char c + (32::nat)) else c) s"

section \<open>expression.py: the parser\<close>

text \<open>
  \<^verbatim>\<open>
  class Parser(object):
      def __init__(self, scanner):
          self._scanner = scanner
          self._pos = 0
      def reset(self, input):
          self._scanner.reset(input)
          self._pos = 0
      def _peek(self, types):
          try:
              tok = self._scanner.token(self._pos, types)
              return tok[2]
          except SyntaxError:
              return None
      def _scan(self, type):
          tok = self._scanner.token(self._pos, set([type]))
          if tok[2] != type:
              raise SyntaxError(...)
          self._pos += 1
          return tok[3]
      def _rewind(self, n=1):
          self._pos -= min(n, self._pos)
          self._scanner.rewind(self._pos)
  \<close>
\<close>

record Parser =
  scanner' :: Scanner
  pos' :: nat

definition Parser_reset :: "string \<Rightarrow> Parser" where
  "Parser_reset inp = \<lparr>scanner' = Scanner_reset inp, pos' = 0\<rparr>"

definition peek :: "Parser \<Rightarrow> kind list \<Rightarrow> error + (kind option \<times> Parser)" where
  "peek P types =
     (case Scanner_token (scanner' P) (pos' P) types of
        Inr (tok, S) \<Rightarrow> Inr (Some (kind_of tok), P\<lparr>scanner' := S\<rparr>)
      | Inl SyntaxError \<Rightarrow> Inr (None, P)
      | Inl e \<Rightarrow> Inl e)"

definition scan :: "Parser \<Rightarrow> kind \<Rightarrow> error + (string \<times> Parser)" where
  "scan P type =
     (case Scanner_token (scanner' P) (pos' P) [type] of
        Inl e \<Rightarrow> Inl e
      | Inr (tok, S) \<Rightarrow>
          if kind_of tok \<noteq> type then Inl SyntaxError
          else Inr (text_of tok, P\<lparr>scanner' := S, pos' := pos' P + 1\<rparr>))"

definition rewind :: "Parser \<Rightarrow> Parser" where
  "rewind P =
     (let p = pos' P - min 1 (pos' P)
      in P\<lparr>scanner' := Scanner_rewind (scanner' P) p, pos' := p\<rparr>)"

text \<open>
  The sets of token names at the end of the generated grammar; \<open>atom_rsts'\<close> and
  \<open>argspec_item_rsts'\<close> are the sets \<open>atom_rsts_\<close> and \<open>argspec_item_rsts_\<close>.
\<close>

definition m_expr_chks :: "kind list" where
  "m_expr_chks = [MUL, DIV]"
definition comparison_rsts :: "kind list" where
  "comparison_rsts = [LPAR, QSTR, RPAR, LE, COLOR, NE, LT, NUM, COMMA, GT, END, SIGN, ADD, FNCT,
     STR', VAR, EQ, ID, AND, GE, NOT, OR]"
definition u_expr_chks :: "kind list" where
  "u_expr_chks = [LPAR, COLOR, QSTR, NUM, FNCT, STR', VAR, ID]"
definition m_expr_rsts :: "kind list" where
  "m_expr_rsts = [LPAR, SUB, QSTR, RPAR, MUL, DIV, LE, COLOR, NE, LT, NUM, COMMA, GT, END, SIGN,
     GE, FNCT, STR', VAR, EQ, ID, AND, ADD, NOT, OR]"
definition argspec_item_rsts' :: "kind list" where
  "argspec_item_rsts' = [LPAR, COLOR, QSTR, SIGN, VAR, ADD, NUM, COLON, STR', NOT, ID, FNCT]"
definition expr_lst_rsts :: "kind list" where
  "expr_lst_rsts = [END, COMMA, RPAR]"
definition and_test_rsts :: "kind list" where
  "and_test_rsts = [AND, LPAR, END, COLOR, QSTR, SIGN, VAR, ADD, NUM, COMMA, FNCT, STR', NOT, ID,
     RPAR, OR]"
definition atom_rsts :: "kind list" where
  "atom_rsts = [LPAR, COLOR, QSTR, SIGN, NOT, ADD, NUM, FNCT, STR', VAR, RPAR, ID]"
definition u_expr_rsts :: "kind list" where
  "u_expr_rsts = [LPAR, COLOR, QSTR, SIGN, ADD, NUM, FNCT, STR', VAR, ID]"
definition expr_rsts :: "kind list" where
  "expr_rsts = [LPAR, END, COLOR, QSTR, RPAR, VAR, ADD, NUM, COMMA, FNCT, STR', NOT, ID, SIGN, OR]"
definition argspec_item_rsts :: "kind list" where
  "argspec_item_rsts = [LPAR, COLOR, QSTR, SIGN, NOT, ADD, NUM, FNCT, STR', VAR, ID]"
definition argspec_rsts :: "kind list" where
  "argspec_rsts = [COMMA, RPAR]"
definition not_test_rsts :: "kind list" where
  "not_test_rsts = [LPAR, COLOR, QSTR, SIGN, VAR, ADD, NUM, FNCT, STR', NOT, ID]"
definition atom_rsts' :: "kind list" where
  "atom_rsts' = [LPAR, SUB, QSTR, RPAR, VAR, MUL, DIV, LE, COLOR, NE, LT, NUM, COMMA, GT, END, SIGN,
     GE, FNCT, STR', UNITS, EQ, ID, AND, ADD, NOT, OR]"
definition comparison_chks :: "kind list" where
  "comparison_chks = [GT, GE, NE, LT, LE, EQ]"
definition a_expr_chks :: "kind list" where
  "a_expr_chks = [ADD, SUB]"
definition a_expr_rsts :: "kind list" where
  "a_expr_rsts = [LPAR, SUB, QSTR, RPAR, LE, COLOR, NE, LT, NUM, COMMA, GT, END, SIGN, GE, FNCT,
     STR', VAR, EQ, ID, AND, ADD, NOT, OR]"
definition expr_slst_rsts :: "kind list" where
  "expr_slst_rsts = [LPAR, END, COLOR, QSTR, RPAR, VAR, ADD, NUM, COMMA, FNCT, STR', NOT, SIGN, ID]"

text \<open>
  Sequencing of two steps of the parser or the evaluator: the second runs on the result and
  the state of the first, unless the first raised.
\<close>

definition and_then :: "error + ('a \<times> 's) \<Rightarrow> ('a \<Rightarrow> 's \<Rightarrow> error + ('b \<times> 's)) \<Rightarrow> error + ('b \<times> 's)" where
  "and_then m f = (case m of Inl e \<Rightarrow> Inl e | Inr (a, s) \<Rightarrow> f a s)"

definition in_kinds :: "kind option \<Rightarrow> kind list \<Rightarrow> bool" where
  \<comment> \<open>\<open>self._peek(...) in chks\<close>, where the peek may be \<open>None\<close>\<close>
  "in_kinds t ks = (case t of None \<Rightarrow> False | Some k \<Rightarrow> k \<in> set ks)"

text \<open>
  The methods of \<open>SassExpression\<close> call each other recursively. They are the cases of one
  function \<open>run\<close>, which takes the method to run as a \<open>rule\<close>; a \<open>while\<close> loop of a method is
  a rule of its own (\<open>..._loop\<close>), which carries the value \<open>v\<close> built so far. The recursion
  is bounded by the fuel: every call uses one unit, and \<open>Diverged\<close> is the result when none is
  left. The first argument is the table \<open>COLOR_NAMES\<close>.
\<close>

datatype rule =
    Expr_lst | Expr_lst_loop "expr list"
  | Expr_slst | Expr_slst_loop "expr list"
  | Expr | Expr_loop expr
  | And_test | And_test_loop expr
  | Not_test
  | Comparison | Comparison_loop expr
  | A_expr | A_expr_loop expr
  | M_expr | M_expr_loop expr
  | U_expr
  | Atom
  | Argspec | Argspec_loop "(string option \<times> expr) list"

text \<open>
  \<^verbatim>\<open>
  def argspec_item(self):
      var = None
      if self._peek(self.argspec_item_rsts) == 'VAR':
          VAR = self._scan('VAR')
          if self._peek(self.argspec_item_rsts_) == '":"':
              self._scan('":"')
              var = VAR
          else: self._rewind()
      expr_slst = self.expr_slst()
      return (var, expr_slst)
  \<close>
  The method \<open>expr_slst\<close> it calls is the argument.
\<close>

definition argspec_item ::
  "(Parser \<Rightarrow> error + (expr \<times> Parser)) \<Rightarrow> Parser \<Rightarrow> error + ((string option \<times> expr) \<times> Parser)" where
  "argspec_item expr_slst P =
     and_then (peek P argspec_item_rsts) (\<lambda>t P.
     and_then
       (if t = Some VAR then
          and_then (scan P VAR) (\<lambda>x P.
          and_then (peek P argspec_item_rsts') (\<lambda>t P.
            if t = Some COLON then and_then (scan P COLON) (\<lambda>_ P. Inr (Some x, P))
            else Inr (None, rewind P)))
        else Inr (None, P)) (\<lambda>var P.
     and_then (expr_slst P) (\<lambda>e P. Inr ((var, e), P))))"

primrec run :: "string list \<Rightarrow> nat \<Rightarrow> rule \<Rightarrow> Parser \<Rightarrow> error + (expr \<times> Parser)" where
  "run cn 0 = (\<lambda>r P. Inl Diverged)"
| "run cn (Suc n) = (\<lambda>r P. case r of
      Expr_lst \<Rightarrow>
         and_then (run cn n Expr_slst P) (\<lambda>e P. run cn n (Expr_lst_loop [e]) P)
    | Expr_lst_loop v \<Rightarrow>
         and_then (peek P expr_lst_rsts) (\<lambda>t P.
           if t = Some COMMA then
             and_then (scan P COMMA) (\<lambda>_ P.
             and_then (run cn n Expr_slst P) (\<lambda>e P. run cn n (Expr_lst_loop (v @ [e])) P))
           else Inr (if 1 < length v then ListLiteral v True else hd v, P))
    | Expr_slst \<Rightarrow>
         and_then (run cn n Expr P) (\<lambda>e P. run cn n (Expr_slst_loop [e]) P)
    | Expr_slst_loop v \<Rightarrow>
         and_then (peek P expr_slst_rsts) (\<lambda>t P.
           if \<not> in_kinds t expr_lst_rsts then
             and_then (run cn n Expr P) (\<lambda>e P. run cn n (Expr_slst_loop (v @ [e])) P)
           else Inr (if 1 < length v then ListLiteral v False else hd v, P))
    | Expr \<Rightarrow>
         and_then (run cn n And_test P) (\<lambda>v P. run cn n (Expr_loop v) P)
    | Expr_loop v \<Rightarrow>
         and_then (peek P expr_rsts) (\<lambda>t P.
           if t = Some OR then
             and_then (scan P OR) (\<lambda>_ P.
             and_then (run cn n And_test P) (\<lambda>e P. run cn n (Expr_loop (AnyOp [v, e])) P))
           else Inr (v, P))
    | And_test \<Rightarrow>
         and_then (run cn n Not_test P) (\<lambda>v P. run cn n (And_test_loop v) P)
    | And_test_loop v \<Rightarrow>
         and_then (peek P and_test_rsts) (\<lambda>t P.
           if t = Some AND then
             and_then (scan P AND) (\<lambda>_ P.
             and_then (run cn n Not_test P) (\<lambda>e P. run cn n (And_test_loop (AllOp [v, e])) P))
           else Inr (v, P))
    | Not_test \<Rightarrow>
         and_then (peek P not_test_rsts) (\<lambda>t P.
           if t \<noteq> Some NOT then run cn n Comparison P
           else
             and_then (scan P NOT) (\<lambda>_ P.
             and_then (run cn n Not_test P) (\<lambda>e P. Inr (NotOp e, P))))
    | Comparison \<Rightarrow>
         and_then (run cn n A_expr P) (\<lambda>v P. run cn n (Comparison_loop v) P)
    | Comparison_loop v \<Rightarrow>
         and_then (peek P comparison_rsts) (\<lambda>t P.
           if in_kinds t comparison_chks then
             and_then (peek P comparison_chks) (\<lambda>t P.
               if t = Some LT then
                 and_then (scan P LT) (\<lambda>_ P.
                 and_then (run cn n A_expr P) (\<lambda>e P. run cn n (Comparison_loop (BinaryOp op_lt v e)) P))
               else if t = Some GT then
                 and_then (scan P GT) (\<lambda>_ P.
                 and_then (run cn n A_expr P) (\<lambda>e P. run cn n (Comparison_loop (BinaryOp op_gt v e)) P))
               else if t = Some LE then
                 and_then (scan P LE) (\<lambda>_ P.
                 and_then (run cn n A_expr P) (\<lambda>e P. run cn n (Comparison_loop (BinaryOp op_le v e)) P))
               else if t = Some GE then
                 and_then (scan P GE) (\<lambda>_ P.
                 and_then (run cn n A_expr P) (\<lambda>e P. run cn n (Comparison_loop (BinaryOp op_ge v e)) P))
               else if t = Some EQ then
                 and_then (scan P EQ) (\<lambda>_ P.
                 and_then (run cn n A_expr P) (\<lambda>e P. run cn n (Comparison_loop (BinaryOp op_eq v e)) P))
               else
                 and_then (scan P NE) (\<lambda>_ P.
                 and_then (run cn n A_expr P) (\<lambda>e P. run cn n (Comparison_loop (BinaryOp op_ne v e)) P)))
           else Inr (v, P))
    | A_expr \<Rightarrow>
         and_then (run cn n M_expr P) (\<lambda>v P. run cn n (A_expr_loop v) P)
    | A_expr_loop v \<Rightarrow>
         and_then (peek P a_expr_rsts) (\<lambda>t P.
           if in_kinds t a_expr_chks then
             and_then (peek P a_expr_chks) (\<lambda>t P.
               if t = Some ADD then
                 and_then (scan P ADD) (\<lambda>_ P.
                 and_then (run cn n M_expr P) (\<lambda>e P. run cn n (A_expr_loop (BinaryOp op_add v e)) P))
               else
                 and_then (scan P SUB) (\<lambda>_ P.
                 and_then (run cn n M_expr P) (\<lambda>e P. run cn n (A_expr_loop (BinaryOp op_sub v e)) P)))
           else Inr (v, P))
    | M_expr \<Rightarrow>
         and_then (run cn n U_expr P) (\<lambda>v P. run cn n (M_expr_loop v) P)
    | M_expr_loop v \<Rightarrow>
         and_then (peek P m_expr_rsts) (\<lambda>t P.
           if in_kinds t m_expr_chks then
             and_then (peek P m_expr_chks) (\<lambda>t P.
               if t = Some MUL then
                 and_then (scan P MUL) (\<lambda>_ P.
                 and_then (run cn n U_expr P) (\<lambda>e P. run cn n (M_expr_loop (BinaryOp op_mul v e)) P))
               else
                 and_then (scan P DIV) (\<lambda>_ P.
                 and_then (run cn n U_expr P) (\<lambda>e P. run cn n (M_expr_loop (BinaryOp op_truediv v e)) P)))
           else Inr (v, P))
    | U_expr \<Rightarrow>
         and_then (peek P u_expr_rsts) (\<lambda>t P.
           if t = Some SIGN then
             and_then (scan P SIGN) (\<lambda>_ P.
             and_then (run cn n U_expr P) (\<lambda>e P. Inr (UnaryOp op_neg e, P)))
           else if t = Some ADD then
             and_then (scan P ADD) (\<lambda>_ P.
             and_then (run cn n U_expr P) (\<lambda>e P. Inr (UnaryOp op_pos e, P)))
           else run cn n Atom P)
    | Atom \<Rightarrow>
         and_then (peek P u_expr_chks) (\<lambda>t P.
           if t = Some LPAR then
             and_then (scan P LPAR) (\<lambda>_ P.
             and_then (run cn n Expr_lst P) (\<lambda>e P.
             and_then (scan P RPAR) (\<lambda>_ P. Inr (Parentheses e, P))))
           else if t = Some ID then
             and_then (scan P ID) (\<lambda>w P. Inr (Literal (parse_bareword cn w), P))
           else if t = Some FNCT then
             and_then (scan P FNCT) (\<lambda>f P.
             and_then (scan P LPAR) (\<lambda>_ P.
             and_then (peek P atom_rsts) (\<lambda>t P.
             and_then (if t \<noteq> Some RPAR then run cn n Argspec P else Inr (ArgspecLiteral [], P)) (\<lambda>v P.
             and_then (scan P RPAR) (\<lambda>_ P. Inr (CallOp f v, P))))))
           else if t = Some NUM then
             and_then (scan P NUM) (\<lambda>num P.
             and_then (peek P atom_rsts') (\<lambda>t P.
               if t = Some UNITS then
                 and_then (scan P UNITS) (\<lambda>units P.
                   Inr (Literal (NumberValue (float num) (Some (lower units))), P))
               else Inr (Literal (NumberValue (float num) None), P)))
           else if t = Some STR' then
             and_then (scan P STR') (\<lambda>s P. Inr (Literal (String (butlast (tl s)) (Some [CHR 0x27])), P))
           else if t = Some QSTR then
             and_then (scan P QSTR) (\<lambda>s P. Inr (Literal (String (butlast (tl s)) (Some [CHR 0x22])), P))
           else if t = Some COLOR then
             and_then (scan P COLOR) (\<lambda>c P. Inr (Literal (ColorValue (ParserValue c)), P))
           else
             and_then (scan P VAR) (\<lambda>x P. Inr (Variable x, P)))
    | Argspec \<Rightarrow>
         and_then (argspec_item (run cn n Expr_slst) P) (\<lambda>a P. run cn n (Argspec_loop [a]) P)
    | Argspec_loop v \<Rightarrow>
         and_then (peek P argspec_rsts) (\<lambda>t P.
           if t = Some COMMA then
             and_then (scan P COMMA) (\<lambda>_ P.
             and_then (argspec_item (run cn n Expr_slst) P) (\<lambda>a P. run cn n (Argspec_loop (v @ [a])) P))
           else Inr (ArgspecLiteral v, P)))"

text \<open>The methods by their names.\<close>

definition expr_lst :: "string list \<Rightarrow> nat \<Rightarrow> Parser \<Rightarrow> error + (expr \<times> Parser)" where
  "expr_lst cn n P = run cn n Expr_lst P"

definition expr_lst_loop :: "string list \<Rightarrow> nat \<Rightarrow> expr list \<Rightarrow> Parser \<Rightarrow> error + (expr \<times> Parser)" where
  "expr_lst_loop cn n v P = run cn n (Expr_lst_loop v) P"

definition expr_slst :: "string list \<Rightarrow> nat \<Rightarrow> Parser \<Rightarrow> error + (expr \<times> Parser)" where
  "expr_slst cn n P = run cn n Expr_slst P"

definition expr_slst_loop :: "string list \<Rightarrow> nat \<Rightarrow> expr list \<Rightarrow> Parser \<Rightarrow> error + (expr \<times> Parser)" where
  "expr_slst_loop cn n v P = run cn n (Expr_slst_loop v) P"

definition expr :: "string list \<Rightarrow> nat \<Rightarrow> Parser \<Rightarrow> error + (expr \<times> Parser)" where
  "expr cn n P = run cn n Expr P"

definition expr_loop :: "string list \<Rightarrow> nat \<Rightarrow> expr \<Rightarrow> Parser \<Rightarrow> error + (expr \<times> Parser)" where
  "expr_loop cn n v P = run cn n (Expr_loop v) P"

definition and_test :: "string list \<Rightarrow> nat \<Rightarrow> Parser \<Rightarrow> error + (expr \<times> Parser)" where
  "and_test cn n P = run cn n And_test P"

definition and_test_loop :: "string list \<Rightarrow> nat \<Rightarrow> expr \<Rightarrow> Parser \<Rightarrow> error + (expr \<times> Parser)" where
  "and_test_loop cn n v P = run cn n (And_test_loop v) P"

definition not_test :: "string list \<Rightarrow> nat \<Rightarrow> Parser \<Rightarrow> error + (expr \<times> Parser)" where
  "not_test cn n P = run cn n Not_test P"

definition comparison :: "string list \<Rightarrow> nat \<Rightarrow> Parser \<Rightarrow> error + (expr \<times> Parser)" where
  "comparison cn n P = run cn n Comparison P"

definition comparison_loop :: "string list \<Rightarrow> nat \<Rightarrow> expr \<Rightarrow> Parser \<Rightarrow> error + (expr \<times> Parser)" where
  "comparison_loop cn n v P = run cn n (Comparison_loop v) P"

definition a_expr :: "string list \<Rightarrow> nat \<Rightarrow> Parser \<Rightarrow> error + (expr \<times> Parser)" where
  "a_expr cn n P = run cn n A_expr P"

definition a_expr_loop :: "string list \<Rightarrow> nat \<Rightarrow> expr \<Rightarrow> Parser \<Rightarrow> error + (expr \<times> Parser)" where
  "a_expr_loop cn n v P = run cn n (A_expr_loop v) P"

definition m_expr :: "string list \<Rightarrow> nat \<Rightarrow> Parser \<Rightarrow> error + (expr \<times> Parser)" where
  "m_expr cn n P = run cn n M_expr P"

definition m_expr_loop :: "string list \<Rightarrow> nat \<Rightarrow> expr \<Rightarrow> Parser \<Rightarrow> error + (expr \<times> Parser)" where
  "m_expr_loop cn n v P = run cn n (M_expr_loop v) P"

definition u_expr :: "string list \<Rightarrow> nat \<Rightarrow> Parser \<Rightarrow> error + (expr \<times> Parser)" where
  "u_expr cn n P = run cn n U_expr P"

definition atom :: "string list \<Rightarrow> nat \<Rightarrow> Parser \<Rightarrow> error + (expr \<times> Parser)" where
  "atom cn n P = run cn n Atom P"

definition argspec :: "string list \<Rightarrow> nat \<Rightarrow> Parser \<Rightarrow> error + (expr \<times> Parser)" where
  "argspec cn n P = run cn n Argspec P"

definition argspec_loop :: "string list \<Rightarrow> nat \<Rightarrow> (string option \<times> expr) list \<Rightarrow> Parser \<Rightarrow> error + (expr \<times> Parser)" where
  "argspec_loop cn n v P = run cn n (Argspec_loop v) P"

text \<open>
  \<^verbatim>\<open>
  def goal(self):
      expr_lst = self.expr_lst()
      v = expr_lst
      END = self._scan('END')
      return v
  \<close>
\<close>

definition goal :: "string list \<Rightarrow> nat \<Rightarrow> Parser \<Rightarrow> error + (expr \<times> Parser)" where
  "goal cn fuel P =
     and_then (expr_lst cn fuel P) (\<lambda>v P.
     and_then (scan P END) (\<lambda>_ P. Inr (v, P)))"

text \<open>
  \<^verbatim>\<open>
  P = SassExpression(SassExpressionScanner())
  P.reset(expr)
  ast = P.goal()
  \<close>
\<close>

definition parse :: "string list \<Rightarrow> nat \<Rightarrow> string \<Rightarrow> error + expr" where
  "parse cn fuel text = (case goal cn fuel (Parser_reset text) of Inl e \<Rightarrow> Inl e | Inr (ast, P) \<Rightarrow> Inr ast)"

section \<open>expression.py: evaluation\<close>

text \<open>
  What the evaluator takes from modules that are not among the sources is collected in one
  record of parameters:
  \<^item> \<open>COLOR_NAMES\<close> and \<open>is_builtin_css_function\<close> of \<open>scss.cssdefs\<close>, and the matches of its
    regular expressions \<open>_expr_glob_re\<close> and \<open>_interpolate_re\<close> in a text: \<open>expr_glob_re\<close>
    splits a text into the pieces between the matches (\<open>Inl\<close>) and \<open>group(1)\<close> of each match
    (\<open>Inr\<close>); \<open>interpolate_re\<close> does the same with \<open>(group(0), group(1), group(2))\<close> for each
    match, where \<open>group(1)\<close> may be \<open>None\<close>;
  \<^item> \<open>DEBUG\<close> of \<open>scss.config\<close>;
  \<^item> \<open>dequote\<close> of \<open>scss.util\<close>;
  \<^item> of the value classes of \<open>scss.types\<close>: \<open>render\<close> (the method \<open>render()\<close>), \<open>bool_of\<close>
    (the truth value \<open>bool(value)\<close>), \<open>str_of\<close> (\<open>str(value)\<close>), and \<open>apply_unary\<close> and
    \<open>apply_binary\<close>, the result of an operator of the module \<open>operator\<close> on its operands.
\<close>

record externals =
  COLOR_NAMES :: "string list"
  is_builtin_css_function :: "string \<Rightarrow> bool"
  expr_glob_re :: "string \<Rightarrow> (string + string) list"
  interpolate_re :: "string \<Rightarrow> (string + (string \<times> string option \<times> string)) list"
  DEBUG :: bool
  dequote :: "string \<Rightarrow> string"
  render :: "val \<Rightarrow> string"
  bool_of :: "val \<Rightarrow> bool"
  str_of :: "val \<Rightarrow> string"
  apply_unary :: "unop \<Rightarrow> val \<Rightarrow> error + val"
  apply_binary :: "binop \<Rightarrow> val \<Rightarrow> val \<Rightarrow> error + val"

text \<open>
  A plain Python string has no method \<open>render\<close>; it is true when it is not empty, and
  \<open>str\<close> returns it.
\<close>

definition render_of :: "externals \<Rightarrow> val \<Rightarrow> error + string" where
  "render_of X v = (case v of PyStr s \<Rightarrow> Inl AttributeError | _ \<Rightarrow> Inr (render X v))"

definition truth_of :: "externals \<Rightarrow> val \<Rightarrow> bool" where
  "truth_of X v = (case v of PyStr s \<Rightarrow> s \<noteq> [] | _ \<Rightarrow> bool_of X v)"

definition to_str :: "externals \<Rightarrow> val \<Rightarrow> string" where
  "to_str X v = (case v of PyStr s \<Rightarrow> s | _ \<Rightarrow> str_of X v)"

text \<open>
  A registered function is called with positional arguments and keyword arguments; what it
  does beyond returning a value is an effect on a world of type \<open>'w\<close>.
\<close>

type_synonym 'w callable = "val list \<Rightarrow> (string \<rightharpoonup> val) \<Rightarrow> 'w \<Rightarrow> error + (val \<times> 'w)"

text \<open>
  A \<open>Calculator\<close> holds its namespace; \<open>memory_of\<close> is the memory its scopes point into.
  The state that evaluation changes: the module-level dict \<open>ast_cache\<close>, the warnings
  logged with \<open>log.warn\<close>, and the world of the registered functions.
\<close>

record ('w, 'm) Calculator =
  namespace :: Namespace
  memory_of :: "('w callable, 'm) memory"

record 'w state =
  ast_cache :: "string \<rightharpoonup> expr"
  warnings :: "string list"
  world :: 'w

definition lift :: "error + 'a \<Rightarrow> 's \<Rightarrow> error + ('a \<times> 's)" where
  "lift r s = (case r of Inl e \<Rightarrow> Inl e | Inr a \<Rightarrow> Inr (a, s))"

text \<open>A list comprehension or \<open>for\<close> loop whose body may raise and changes the state.\<close>

fun map_m :: "('a \<Rightarrow> 's \<Rightarrow> error + ('b \<times> 's)) \<Rightarrow> 'a list \<Rightarrow> 's \<Rightarrow> error + ('b list \<times> 's)" where
  "map_m f [] s = Inr ([], s)"
| "map_m f (x # xs) s =
     and_then (f x s) (\<lambda>y s. and_then (map_m f xs s) (\<lambda>ys s. Inr (y # ys, s)))"

text \<open>
  The body of the loop over \<open>argpairs\<close> in \<open>CallOp.evaluate\<close>: the expression of the pair
  is evaluated (by \<open>ev\<close>) and paired with the name.
\<close>

definition eval_pair ::
  "(expr \<Rightarrow> 's \<Rightarrow> error + (val \<times> 's)) \<Rightarrow> string option \<times> expr \<Rightarrow> 's
     \<Rightarrow> error + ((string option \<times> val) \<times> 's)" where
  "eval_pair ev a st = and_then (ev (snd a) st) (\<lambda>v st. Inr ((fst a, v), st))"

definition is_Literal :: "expr \<Rightarrow> bool" where
  \<comment> \<open>\<open>isinstance(node, Literal)\<close>\<close>
  "is_Literal node = (case node of Literal v \<Rightarrow> True | _ \<Rightarrow> False)"

definition join :: "string \<Rightarrow> string list \<Rightarrow> string" where
  \<comment> \<open>\<open>sep.join(xs)\<close>\<close>
  "join sep xs = (case xs of [] \<Rightarrow> [] | x # rest \<Rightarrow> x @ concat (map (\<lambda>y. sep @ y) rest))"

definition keyword_of :: "string \<Rightarrow> string" where
  \<comment> \<open>\<open>var.lstrip('$').replace('-', '_')\<close>\<close>
  "keyword_of var = map (\<lambda>c. if c = CHR ''-'' then CHR ''_'' else c) (dropWhile (\<lambda>c. c = CHR ''$'') var)"

text \<open>
  The second half of \<open>CallOp.evaluate\<close>, after the arguments have been evaluated to
  \<open>evald_argpairs\<close>:
  \<^verbatim>\<open>
  num_args = len(self.argspec.argpairs)
  try:
      func = calculator.namespace.function(self.func_name, num_args)
      if getattr(func, '__name__', None) == '__call':
          func = partial(func, calculator.namespace)
  except KeyError:
      if not is_builtin_css_function(self.func_name):
          log.warn("no such function")
      rendered_args = []
      for var, value in evald_argpairs:
          rendered_value = value.render()
          if var is None:
              rendered_args.append(rendered_value)
          else:
              rendered_args.append("%s: %s" % (var, rendered_value))
      return String(
          u"%s(%s)" % (self.func_name, u", ".join(rendered_args)),
          quotes=None)
  else:
      return func(*args, **kwargs)
  \<close>
  A function defined in a stylesheet (named \<open>__call\<close>) receives the namespace as its first
  argument; in the model a callable is the function after this binding.
\<close>

definition args_of :: "(string option \<times> val) list \<Rightarrow> val list" where
  "args_of evald = map snd (filter (\<lambda>(var, v). var = None) evald)"

definition kwargs_of :: "(string option \<times> val) list \<Rightarrow> (string \<rightharpoonup> val)" where
  "kwargs_of evald =
     foldl (\<lambda>kw (var, v). case var of None \<Rightarrow> kw | Some x \<Rightarrow> kw(keyword_of x \<mapsto> v)) Map.empty evald"

definition render_arg :: "externals \<Rightarrow> string option \<times> val \<Rightarrow> error + string" where
  "render_arg X a =
     (case render_of X (snd a) of
        Inl e \<Rightarrow> Inl e
      | Inr rendered_value \<Rightarrow>
          (case fst a of None \<Rightarrow> Inr rendered_value | Some var \<Rightarrow> Inr (var @ '': '' @ rendered_value)))"

definition call_function ::
  "externals \<Rightarrow> ('w, 'm) Calculator \<Rightarrow> string \<Rightarrow> nat \<Rightarrow> (string option \<times> val) list \<Rightarrow> 'w state
     \<Rightarrow> error + (val \<times> 'w state)" where
  "call_function X C func_name num_args evald st =
     (case function' (memory_of C) (namespace C) func_name (Some num_args) of
        Inr func \<Rightarrow>
          (case func (args_of evald) (kwargs_of evald) (world st) of
             Inl e \<Rightarrow> Inl e
           | Inr (v, w) \<Rightarrow> Inr (v, st\<lparr>world := w\<rparr>))
      | Inl KeyError \<Rightarrow>
          (let st = (if \<not> is_builtin_css_function X func_name
                     then st\<lparr>warnings := warnings st @ [''no such function'']\<rparr> else st)
           in and_then (map_m (\<lambda>a s. lift (render_arg X a) s) evald st) (\<lambda>rendered_args st.
                Inr (String (func_name @ ''('' @ join '', '' rendered_args @ '')'') None, st)))
      | Inl e \<Rightarrow> Inl e)"

text \<open>
  The methods \<open>evaluate\<close> of the node classes, and \<open>Calculator.evaluate_expression\<close>, which
  \<open>Variable.evaluate\<close> calls on a variable that holds a plain string. The fuel bounds the
  depth of the recursion (and of the parser's, in \<open>evaluate_expression\<close>).
  \<^verbatim>\<open>
  class Parentheses:   return self.contents.evaluate(calculator, divide=True)
  class UnaryOp:       return self.op(self.operand.evaluate(calculator, divide=True))
  class BinaryOp:
      left = self.left.evaluate(calculator, divide=True)
      right = self.right.evaluate(calculator, divide=True)
      if (self.op is operator.truediv and not divide
              and isinstance(self.left, Literal) and isinstance(self.right, Literal)):
          return String(left.render() + ' / ' + right.render(), quotes=None)
      return self.op(left, right)
  class AnyOp:
      operands = [operand.evaluate(calculator, divide=True) for operand in self.operands]
      return BooleanValue(any(operands))
  class AllOp:
      operands = [operand.evaluate(calculator, divide=True) for operand in self.operands]
      return BooleanValue(all(operands))
  class NotOp:
      operand = self.operand.evaluate(calculator, divide=True)
      return BooleanValue(not(operand))
  class CallOp:
      for var, expr in self.argspec.argpairs:
          value = expr.evaluate(calculator, divide=True)
          evald_argpairs.append((var, value))
          ...
  class Literal:       return self.value
  class Variable:
      try:
          value = calculator.namespace.variable(self.name)
      except KeyError:
          raise
      else:
          if isinstance(value, six.string_types):
              evald = calculator.evaluate_expression(value)
              if evald is not None:
                  return evald
          return value
  class ListLiteral:
      items = [item.evaluate(calculator, divide=divide) for item in self.items]
      return ListValue(items, separator="," if self.comma else "")
  class Expression (ArgspecLiteral):   raise NotImplementedError

  def evaluate_expression(self, expr):
      results = None
      if not isinstance(expr, six.string_types):
          results = expr
      if results is None:
          try:
              results = self.namespace.variable(expr)
          except KeyError:
              pass
          if not isinstance(expr, six.string_types):
              results = expr
      ast = None
      if results is None:
          if expr in ast_cache:
              ast = ast_cache[expr]
              results = ast.evaluate(self)
          else:
              try:
                  P = SassExpression(SassExpressionScanner())
                  P.reset(expr)
                  ast = P.goal()
              except SyntaxError:
                  if config.DEBUG:
                      raise
              except Exception:
                  if config.DEBUG:
                      raise
              else:
                  ast_cache[expr] = ast
                  results = ast.evaluate(self)
      return results
  \<close>
\<close>

fun evaluate ::
    "externals \<Rightarrow> ('w, 'm) Calculator \<Rightarrow> nat \<Rightarrow> expr \<Rightarrow> bool \<Rightarrow> 'w state \<Rightarrow> error + (val \<times> 'w state)"
  and evaluate_expression ::
    "externals \<Rightarrow> ('w, 'm) Calculator \<Rightarrow> nat \<Rightarrow> val \<Rightarrow> 'w state \<Rightarrow> error + (val option \<times> 'w state)"
where
  "evaluate X C 0 node divide' st = Inl Diverged"
| "evaluate X C (Suc n) node divide' st =
     (case node of
        Parentheses contents \<Rightarrow> evaluate X C n contents True st
      | UnaryOp op operand \<Rightarrow>
          and_then (evaluate X C n operand True st) (\<lambda>v st. lift (apply_unary X op v) st)
      | BinaryOp op left right \<Rightarrow>
          and_then (evaluate X C n left True st) (\<lambda>l st.
          and_then (evaluate X C n right True st) (\<lambda>r st.
            if op = op_truediv \<and> \<not> divide' \<and> is_Literal left \<and> is_Literal right then
              and_then (lift (render_of X l) st) (\<lambda>ls st.
              and_then (lift (render_of X r) st) (\<lambda>rs st.
                Inr (String (ls @ '' / '' @ rs) None, st)))
            else lift (apply_binary X op l r) st))
      | AnyOp operands \<Rightarrow>
          and_then (map_m (\<lambda>operand st. evaluate X C n operand True st) operands st) (\<lambda>vs st.
            Inr (BooleanValue (list_ex (truth_of X) vs), st))
      | AllOp operands \<Rightarrow>
          and_then (map_m (\<lambda>operand st. evaluate X C n operand True st) operands st) (\<lambda>vs st.
            Inr (BooleanValue (list_all (truth_of X) vs), st))
      | NotOp operand \<Rightarrow>
          and_then (evaluate X C n operand True st) (\<lambda>v st.
            Inr (BooleanValue (\<not> truth_of X v), st))
      | CallOp func_name argspec' \<Rightarrow>
          (case argspec' of
             ArgspecLiteral argpairs \<Rightarrow>
               and_then
                 (map_m (eval_pair (\<lambda>e st. evaluate X C n e True st)) argpairs st)
                 (\<lambda>evald st. call_function X C func_name (length argpairs) evald st)
           | _ \<Rightarrow> Inl AttributeError)
      | Literal v \<Rightarrow> Inr (v, st)
      | Variable name \<Rightarrow>
          (case variable (memory_of C) (namespace C) name of
             Inl e \<Rightarrow> Inl e
           | Inr v \<Rightarrow>
               (case v of
                  PyStr s \<Rightarrow>
                    and_then (evaluate_expression X C n v st) (\<lambda>evald st.
                      Inr (case evald of Some r \<Rightarrow> r | None \<Rightarrow> v, st))
                | _ \<Rightarrow> Inr (v, st)))
      | ListLiteral items comma \<Rightarrow>
          and_then (map_m (\<lambda>item st. evaluate X C n item divide' st) items st) (\<lambda>vs st.
            Inr (ListValue vs (if comma then '','' else ''''), st))
      | ArgspecLiteral argpairs \<Rightarrow> Inl NotImplementedError)"
| "evaluate_expression X C 0 e st = Inl Diverged"
| "evaluate_expression X C (Suc n) e st =
     (case e of
        PyStr s \<Rightarrow>
          (case variable (memory_of C) (namespace C) s of
             Inr results \<Rightarrow> Inr (Some results, st)
           | Inl KeyError \<Rightarrow>
               (case ast_cache st s of
                  Some ast \<Rightarrow>
                    and_then (evaluate X C n ast False st) (\<lambda>results st. Inr (Some results, st))
                | None \<Rightarrow>
                    (case parse (COLOR_NAMES X) n s of
                       Inl Diverged \<Rightarrow> Inl Diverged
                     | Inl err \<Rightarrow> if DEBUG X then Inl err else Inr (None, st)
                     | Inr ast \<Rightarrow>
                         and_then (evaluate X C n ast False (st\<lparr>ast_cache := (ast_cache st)(s \<mapsto> ast)\<rparr>))
                           (\<lambda>results st. Inr (Some results, st))))
           | Inl err \<Rightarrow> Inl err)
      | _ \<Rightarrow> Inr (Some e, st))"

text \<open>
  \<^verbatim>\<open>
  def parse_expression(self, expr):
      if expr not in ast_cache:
          parser = SassExpression(SassExpressionScanner())
          parser.reset(expr)
          ast = parser.goal()
          ast_cache[expr] = ast
      return ast_cache[expr]
  \<close>
\<close>

definition parse_expression :: "externals \<Rightarrow> nat \<Rightarrow> string \<Rightarrow> 'w state \<Rightarrow> error + (expr \<times> 'w state)" where
  "parse_expression X fuel s st =
     (case ast_cache st s of
        Some ast \<Rightarrow> Inr (ast, st)
      | None \<Rightarrow>
          (case parse (COLOR_NAMES X) fuel s of
             Inl e \<Rightarrow> Inl e
           | Inr ast \<Rightarrow> Inr (ast, st\<lparr>ast_cache := (ast_cache st)(s \<mapsto> ast)\<rparr>)))"

section \<open>expression.py: the calculator\<close>

text \<open>\<open>sub in s\<close> on strings.\<close>

fun contains :: "string \<Rightarrow> string \<Rightarrow> bool" where
  "contains sub [] = (sub = [])"
| "contains sub (c # cs) = (starts_with sub (c # cs) \<or> contains sub cs)"

text \<open>
  \<open>regex.sub(f, cont)\<close>, on the text split at the matches: each match is replaced by the
  string \<open>f\<close> returns for it, from left to right.
\<close>

definition sub :: "('a \<Rightarrow> 's \<Rightarrow> error + (string \<times> 's)) \<Rightarrow> (string + 'a) list \<Rightarrow> 's \<Rightarrow> error + (string \<times> 's)" where
  "sub f pieces s =
     and_then (map_m (\<lambda>piece s. case piece of Inl t \<Rightarrow> Inr (t, s) | Inr m \<Rightarrow> f m s) pieces s)
       (\<lambda>parts s. Inr (concat parts, s))"

text \<open>
  The function \<open>_av\<close> inside \<open>apply_vars\<close>, on a match \<open>(group(0), group(1), group(2))\<close>:
  \<^verbatim>\<open>
  def _av(m):
      v = self.namespace.variable(m.group(2))
      if v:
          if not isinstance(v, six.string_types):
              v = v.render()
          if m.group(1):
              v = dequote(v)
      else:
          v = m.group(0)
      return v
  \<close>
\<close>

definition av :: "externals \<Rightarrow> ('w, 'm) Calculator \<Rightarrow> string \<times> string option \<times> string \<Rightarrow> error + string" where
  "av X C m =
     (case m of (group0, group1, group2) \<Rightarrow>
        (case variable (memory_of C) (namespace C) group2 of
           Inl e \<Rightarrow> Inl e
         | Inr v \<Rightarrow>
             if truth_of X v then
               (let s = (case v of PyStr s \<Rightarrow> s | _ \<Rightarrow> render X v)
                in Inr (if group1 \<noteq> None \<and> group1 \<noteq> Some [] then dequote X s else s))
             else Inr group0))"

text \<open>
  \<^verbatim>\<open>
  def _calculate_expr(self, result):
      _group0 = result.group(1)
      _base_str = _group0
      better_expr_str = self.evaluate_expression(_base_str)
      if better_expr_str is None:
          better_expr_str = self.apply_vars(_base_str)
      else:
          better_expr_str = dequote(better_expr_str.render())
      return better_expr_str

  def do_glob_math(self, cont):
      cont = str(cont)
      if '#{' not in cont:
          return cont
      cont = _expr_glob_re.sub(self._calculate_expr, cont)
      return cont

  def apply_vars(self, cont):
      if isinstance(cont, six.string_types) and '$' in cont:
          try:
              cont = self.namespace.variable(cont)
          except KeyError:
              def _av(m): ...
              cont = _interpolate_re.sub(_av, cont)
      cont = self.do_glob_math(cont)
      return cont
  \<close>
\<close>

fun calculate_expr ::
    "externals \<Rightarrow> ('w, 'm) Calculator \<Rightarrow> nat \<Rightarrow> string \<Rightarrow> 'w state \<Rightarrow> error + (string \<times> 'w state)"
  and do_glob_math ::
    "externals \<Rightarrow> ('w, 'm) Calculator \<Rightarrow> nat \<Rightarrow> val \<Rightarrow> 'w state \<Rightarrow> error + (string \<times> 'w state)"
  and apply_vars ::
    "externals \<Rightarrow> ('w, 'm) Calculator \<Rightarrow> nat \<Rightarrow> val \<Rightarrow> 'w state \<Rightarrow> error + (string \<times> 'w state)"
where
  "calculate_expr X C 0 group1 st = Inl Diverged"
| "calculate_expr X C (Suc n) group1 st =
     and_then (evaluate_expression X C n (PyStr group1) st) (\<lambda>better_expr_str st.
       case better_expr_str of
         None \<Rightarrow> apply_vars X C n (PyStr group1) st
       | Some v \<Rightarrow> and_then (lift (render_of X v) st) (\<lambda>r st. Inr (dequote X r, st)))"
| "do_glob_math X C 0 cont st = Inl Diverged"
| "do_glob_math X C (Suc n) cont st =
     (let cont = to_str X cont in
      if \<not> contains ''#{'' cont then Inr (cont, st)
      else sub (\<lambda>group1 st. calculate_expr X C n group1 st) (expr_glob_re X cont) st)"
| "apply_vars X C 0 cont st = Inl Diverged"
| "apply_vars X C (Suc n) cont st =
     and_then
       (case cont of
          PyStr s \<Rightarrow>
            if contains ''$'' s then
              (case variable (memory_of C) (namespace C) s of
                 Inr v \<Rightarrow> Inr (v, st)
               | Inl KeyError \<Rightarrow>
                   and_then (sub (\<lambda>m st. lift (av X C m) st) (interpolate_re X s) st)
                     (\<lambda>r st. Inr (PyStr r, st))
               | Inl e \<Rightarrow> Inl e)
            else Inr (cont, st)
        | _ \<Rightarrow> Inr (cont, st))
       (\<lambda>cont st. do_glob_math X C n cont st)"


section \<open>Notions used in the properties\<close>

text \<open>A Sass value, as opposed to a plain Python string.\<close>

definition is_sass_value :: "val \<Rightarrow> bool" where
  "is_sass_value v = (case v of PyStr s \<Rightarrow> False | _ \<Rightarrow> True)"


text \<open>
  Of two results of one computation, the first on less fuel than the second: the first ran
  out of fuel, or the second is the same.
\<close>

definition settles :: "error + 'a \<Rightarrow> error + 'a \<Rightarrow> bool" where
  "settles a b = (a = Inl Diverged \<or> b = a)"

text \<open>
  The equations of \<open>evaluate\<close>, \<open>evaluate_expression\<close> and the methods of the calculator
  are large; they are unfolded where a proof asks for them.
\<close>

declare evaluate.simps [simp del] evaluate_expression.simps [simp del]
declare calculate_expr.simps [simp del] do_glob_math.simps [simp del] apply_vars.simps [simp del]

section \<open>Sample parameters\<close>

text \<open>
  Values of the parameters on which the properties below are run at concrete inputs: a
  \<open>render\<close> that knows a few numbers, a division and an addition of numbers that keep the
  unit of the left operand, the truth value of the spec (4.3: \<open>Null\<close> and boolean false are
  false, every other value is true), regular expressions that match nowhere, and a namespace
  with the variable \<open>$x\<close> and a registered function \<open>tick\<close> of no arguments, which
  counts its calls in the world and returns false.
\<close>

definition sample_render :: "val \<Rightarrow> string" where
  "sample_render v =
     (case v of
        NumberValue q u \<Rightarrow>
          (if q = 1 then ''1'' else if q = 2 then ''2'' else if q = 8 then ''8''
           else if q = 9 then ''9'' else if q = 12 then ''12'' else if q = 3 / 2 then ''1.5''
           else ''?'') @ (case u of None \<Rightarrow> [] | Some s \<Rightarrow> s)
      | String s q \<Rightarrow> s
      | BooleanValue b \<Rightarrow> (if b then ''true'' else ''false'')
      | _ \<Rightarrow> [])"

definition sample_binary :: "binop \<Rightarrow> val \<Rightarrow> val \<Rightarrow> error + val" where
  "sample_binary op a b =
     (case (a, b) of
        (NumberValue x u, NumberValue y w) \<Rightarrow>
          if op = op_truediv \<and> y \<noteq> 0 then Inr (NumberValue (x / y) u)
          else if op = op_add then Inr (NumberValue (x + y) (case u of None \<Rightarrow> w | Some s \<Rightarrow> u))
          else Inl TypeError
      | _ \<Rightarrow> Inl TypeError)"

definition sample_externals :: externals where
  "sample_externals =
     \<lparr>COLOR_NAMES = [],
      is_builtin_css_function = (\<lambda>name. name \<in> set [''url'', ''calc'']),
      expr_glob_re = (\<lambda>s. [Inl s]),
      interpolate_re = (\<lambda>s. [Inl s]),
      DEBUG = False,
      dequote = (\<lambda>s. s),
      render = sample_render,
      bool_of = (\<lambda>v. v \<noteq> Null \<and> v \<noteq> BooleanValue False),
      str_of = sample_render,
      apply_unary = (\<lambda>op v. Inl TypeError),
      apply_binary = sample_binary\<rparr>"

definition tick :: "nat callable" where
  "tick args kwargs w = Inr (BooleanValue False, Suc w)"

definition sample_calculator :: "val \<Rightarrow> (nat, unit) Calculator" where
  "sample_calculator x =
     \<lparr>namespace = \<lparr>variables' = [DictRef 0], functions' = [DictRef 0], mixins' = [DictRef 0]\<rparr>,
      memory_of = \<lparr>var_dicts = [[''$x'' \<mapsto> x]],
                   fun_dicts = [[(''tick'', Some 0) \<mapsto> tick]],
                   mix_dicts = [Map.empty]\<rparr>\<rparr>"

definition initial_state :: "nat state" where
  "initial_state = \<lparr>ast_cache = Map.empty, warnings = [], world = 0\<rparr>"

section \<open>Properties: variable scopes and namespaces\<close>

lemma has_key_generator [simp]: "\<not> has_key h (GeneratorObj scopes) key"
  by (simp add: list_ex_iff)

lemma getitem_find:
  "getitem h ms key =
     (case find (\<lambda>m. has_key h m key) ms of
        None \<Rightarrow> Inl KeyError
      | Some (DictRef a) \<Rightarrow> (case (h ! a) key of Some v \<Rightarrow> Inr v | None \<Rightarrow> Inl KeyError)
      | Some (GeneratorObj scopes) \<Rightarrow> Inl TypeError)"
  by (induction ms) (auto split: link.splits)

lemma setitem_loop_find:
  "setitem_loop h ms key v = map_option (\<lambda>m. store_item h m key v) (find (\<lambda>m. has_key h m key) ms)"
  by (induction ms) auto

lemma find_has_key_Some:
  assumes "find (\<lambda>m. has_key h m key) ms = Some m"
  shows "\<exists>a. m = DictRef a \<and> a < length h \<and> (h ! a) key \<noteq> None \<and> m \<in> set ms"
proof -
  from assms have "has_key h m key" and "m \<in> set ms"
    by (auto simp: find_Some_iff)
  then show ?thesis by (cases m) (auto simp: list_ex_iff)
qed

lemma getitem_Inr_iff:
  "getitem h ms key = Inr v \<longleftrightarrow>
     (\<exists>a. find (\<lambda>m. has_key h m key) ms = Some (DictRef a) \<and> a < length h \<and> (h ! a) key = Some v)"
proof
  assume g: "getitem h ms key = Inr v"
  then obtain m where f: "find (\<lambda>m. has_key h m key) ms = Some m"
    by (auto simp: getitem_find split: option.splits)
  from find_has_key_Some[OF f] obtain a where "m = DictRef a" "a < length h" by blast
  with g f show "\<exists>a. find (\<lambda>m. has_key h m key) ms = Some (DictRef a) \<and> a < length h \<and> (h ! a) key = Some v"
    by (auto simp: getitem_find split: option.splits)
next
  assume "\<exists>a. find (\<lambda>m. has_key h m key) ms = Some (DictRef a) \<and> a < length h \<and> (h ! a) key = Some v"
  then show "getitem h ms key = Inr v" by (auto simp: getitem_find)
qed

lemma getitem_KeyError_iff:
  "getitem h ms key = Inl KeyError \<longleftrightarrow> find (\<lambda>m. has_key h m key) ms = None"
proof (cases "find (\<lambda>m. has_key h m key) ms")
  case None
  then show ?thesis by (simp add: getitem_find)
next
  case (Some m)
  from find_has_key_Some[OF Some] obtain a where "m = DictRef a" "(h ! a) key \<noteq> None" by blast
  with Some show ?thesis by (auto simp: getitem_find)
qed

lemma getitem_errors: "getitem h ms key = Inl e \<Longrightarrow> e = KeyError"
proof (cases "find (\<lambda>m. has_key h m key) ms")
  case None
  assume "getitem h ms key = Inl e"
  with None show ?thesis by (simp add: getitem_find)
next
  case (Some m)
  assume g: "getitem h ms key = Inl e"
  from find_has_key_Some[OF Some] obtain a where "m = DictRef a" "(h ! a) key \<noteq> None" by blast
  with Some g show ?thesis by (auto simp: getitem_find)
qed

lemma has_key_append:
  "scope_ok h [m] \<Longrightarrow> has_key (h @ g) m key = has_key h m key"
  by (cases m) (auto simp: scope_ok_def nth_append)

lemma find_has_key_append:
  "scope_ok h ms \<Longrightarrow> find (\<lambda>m. has_key (h @ g) m key) ms = find (\<lambda>m. has_key h m key) ms"
proof (induction ms)
  case Nil
  then show ?case by simp
next
  case (Cons m ms)
  then have "scope_ok h [m]" "scope_ok h ms" by (auto simp: scope_ok_def)
  with Cons.IH show ?case by (simp add: has_key_append)
qed

lemma has_key_update_same:
  "a < length h \<Longrightarrow> (h ! a) key \<noteq> None \<Longrightarrow>
     has_key (h[a := (h ! a)(key \<mapsto> v)]) m key = has_key h m key"
  by (cases m) (auto simp: nth_list_update)

lemma setitem_existing:
  assumes "find (\<lambda>m. has_key h m key) ms = Some (DictRef a)"
  shows "setitem h ms key v = Inr (h[a := (h ! a)(key \<mapsto> v)])"
proof -
  from find_has_key_Some[OF assms] have "a < length h" by auto
  with assms show ?thesis by (simp add: setitem_def setitem_loop_find)
qed

lemma setitem_fresh:
  assumes "find (\<lambda>m. has_key h m key) (DictRef a # ms) = None" and "a < length h"
  shows "setitem h (DictRef a # ms) key v = Inr (h[a := (h ! a)(key \<mapsto> v)])"
  using assms by (simp add: setitem_def setitem_loop_find split: if_splits)

lemma getitem_after_update:
  assumes "find (\<lambda>m. has_key h m key) ms = Some (DictRef a)"
  shows "getitem (h[a := (h ! a)(key \<mapsto> v)]) ms key = Inr v"
proof -
  from find_has_key_Some[OF assms] have a: "a < length h" "(h ! a) key \<noteq> None" by auto
  have "find (\<lambda>m. has_key (h[a := (h ! a)(key \<mapsto> v)]) m key) ms = Some (DictRef a)"
    using assms a by (simp add: has_key_update_same)
  with a show ?thesis by (simp add: getitem_find)
qed

text \<open>
  Claim C2 (scope write-in-place semantics). In every chain, a write to a key that some link
  already holds updates the first such link, in its own dict. For a child scope \<open>cs\<close> made
  by \<open>new_child\<close> from a parent \<open>ps\<close>: writing a key \<open>k1\<close> that the parent sees stores the new
  value in the parent's own dict (the child's fresh dict stays empty), so the parent reads the
  new value; writing a key \<open>k2\<close> that the parent does not see creates it in the child's fresh
  dict, no dict of the parent changes, and the parent still raises \<open>KeyError\<close> for it.
\<close>

theorem scope_write_in_place:
  assumes ok: "scope_ok h ps" and child: "new_child h ps = (cs, h1)"
  shows "(find (\<lambda>m. has_key g m k0) ms = Some (DictRef b) \<longrightarrow>
            setitem g ms k0 v0 = Inr (g[b := (g ! b)(k0 \<mapsto> v0)]))
       \<and> (getitem h ps k1 = Inr old \<longrightarrow>
            (\<exists>a. find (\<lambda>m. has_key h m k1) ps = Some (DictRef a)
               \<and> setitem h1 cs k1 v = Inr (h[a := (h ! a)(k1 \<mapsto> v)] @ [Map.empty])
               \<and> getitem (h[a := (h ! a)(k1 \<mapsto> v)] @ [Map.empty]) ps k1 = Inr v
               \<and> getitem (h[a := (h ! a)(k1 \<mapsto> v)] @ [Map.empty]) cs k1 = Inr v))
       \<and> (getitem h ps k2 = Inl KeyError \<longrightarrow>
            setitem h1 cs k2 w = Inr (h @ [[k2 \<mapsto> w]])
          \<and> getitem (h @ [[k2 \<mapsto> w]]) cs k2 = Inr w
          \<and> getitem (h @ [[k2 \<mapsto> w]]) ps k2 = Inl KeyError)"
proof (intro conjI impI)
  assume "find (\<lambda>m. has_key g m k0) ms = Some (DictRef b)"
  then show "setitem g ms k0 v0 = Inr (g[b := (g ! b)(k0 \<mapsto> v0)])"
    by (rule setitem_existing)
next
  from child have cs: "cs = DictRef (length h) # ps" and h1: "h1 = h @ [Map.empty]"
    by (auto simp: new_child_def VariableScope_init_def)
  assume "getitem h ps k1 = Inr old"
  then obtain a where f: "find (\<lambda>m. has_key h m k1) ps = Some (DictRef a)"
    and a: "a < length h" by (auto simp: getitem_Inr_iff)
  let ?h2 = "h[a := (h ! a)(k1 \<mapsto> v)] @ [Map.empty]"
  have f1: "find (\<lambda>m. has_key h1 m k1) cs = Some (DictRef a)"
    using f ok by (simp add: cs h1 find_has_key_append)
  have upd: "h1[a := (h1 ! a)(k1 \<mapsto> v)] = ?h2"
    using a by (simp add: h1 list_update_append nth_append)
  have s: "setitem h1 cs k1 v = Inr ?h2"
    using setitem_existing[OF f1, of v] upd by simp
  have g1: "getitem ?h2 cs k1 = Inr v"
    using getitem_after_update[OF f1, of v] upd by simp
  have ok2: "scope_ok (h[a := (h ! a)(k1 \<mapsto> v)]) ps"
    using ok by (auto simp: scope_ok_def list_all_iff split: link.splits)
  have "find (\<lambda>m. has_key ?h2 m k1) ps = find (\<lambda>m. has_key (h[a := (h ! a)(k1 \<mapsto> v)]) m k1) ps"
    using ok2 by (rule find_has_key_append)
  also have "\<dots> = Some (DictRef a)"
    using f find_has_key_Some[OF f] by (simp add: has_key_update_same)
  finally have "getitem ?h2 ps k1 = Inr v"
    using a by (simp add: getitem_find nth_append)
  with f s g1
  show "\<exists>a. find (\<lambda>m. has_key h m k1) ps = Some (DictRef a)
               \<and> setitem h1 cs k1 v = Inr (h[a := (h ! a)(k1 \<mapsto> v)] @ [Map.empty])
               \<and> getitem (h[a := (h ! a)(k1 \<mapsto> v)] @ [Map.empty]) ps k1 = Inr v
               \<and> getitem (h[a := (h ! a)(k1 \<mapsto> v)] @ [Map.empty]) cs k1 = Inr v"
    by blast
next
  from child have cs: "cs = DictRef (length h) # ps" and h1: "h1 = h @ [Map.empty]"
    by (auto simp: new_child_def VariableScope_init_def)
  assume ke: "getitem h ps k2 = Inl KeyError"
  then have f: "find (\<lambda>m. has_key h m k2) ps = None" by (simp add: getitem_KeyError_iff)
  have f1: "find (\<lambda>m. has_key h1 m k2) cs = None"
    using f ok by (simp add: cs h1 find_has_key_append)
  have "setitem h1 cs k2 w = Inr (h1[length h := (h1 ! length h)(k2 \<mapsto> w)])"
    unfolding cs using f1 [unfolded cs] by (rule setitem_fresh) (simp add: h1)
  then show "setitem h1 cs k2 w = Inr (h @ [[k2 \<mapsto> w]])" by (simp add: h1)
  show "getitem (h @ [[k2 \<mapsto> w]]) cs k2 = Inr w" by (simp add: cs)
  have "find (\<lambda>m. has_key (h @ [[k2 \<mapsto> w]]) m k2) ps = None"
    using f ok by (simp add: find_has_key_append)
  then show "getitem (h @ [[k2 \<mapsto> w]]) ps k2 = Inl KeyError" by (simp add: getitem_find)
qed

theorem scope_write_in_place_witness:
  "scope_ok [[''$x'' \<mapsto> NumberValue 1 None]] [DictRef 0]
   \<and> new_child [[''$x'' \<mapsto> NumberValue 1 None]] [DictRef 0]
        = ([DictRef 1, DictRef 0], [[''$x'' \<mapsto> NumberValue 1 None], Map.empty])
   \<and> getitem [[''$x'' \<mapsto> NumberValue 1 None]] [DictRef 0] ''$x'' = Inr (NumberValue 1 None)
   \<and> setitem [[''$x'' \<mapsto> NumberValue 1 None], Map.empty] [DictRef 1, DictRef 0] ''$x'' (NumberValue 2 None)
        = Inr [[''$x'' \<mapsto> NumberValue 2 None], Map.empty]
   \<and> getitem [[''$x'' \<mapsto> NumberValue 2 None], Map.empty] [DictRef 0] ''$x'' = Inr (NumberValue 2 None)
   \<and> getitem [[''$x'' \<mapsto> NumberValue 1 None]] [DictRef 0] ''$y'' = Inl KeyError
   \<and> setitem [[''$x'' \<mapsto> NumberValue 1 None], Map.empty] [DictRef 1, DictRef 0] ''$y'' (NumberValue 3 None)
        = Inr [[''$x'' \<mapsto> NumberValue 1 None], [''$y'' \<mapsto> NumberValue 3 None]]
   \<and> getitem [[''$x'' \<mapsto> NumberValue 1 None], [''$y'' \<mapsto> NumberValue 3 None]] [DictRef 0] ''$y''
        = Inl KeyError"
  using scope_write_in_place [where h = "[[''$x'' \<mapsto> NumberValue 1 None]]" and ps = "[DictRef 0]"
      and cs = "[DictRef 1, DictRef 0]" and ?h1.0 = "[[''$x'' \<mapsto> NumberValue 1 None], Map.empty]"
      and g = "[[''$x'' \<mapsto> NumberValue 1 None], Map.empty]" and ?k0.0 = "''$x''"
      and ms = "[DictRef 1, DictRef 0]" and b = 0 and ?v0.0 = "NumberValue 2 None"
      and v = "NumberValue 2 None" and ?k1.0 = "''$x''" and old = "NumberValue 1 None"
      and ?k2.0 = "''$y''" and w = "NumberValue 3 None"]
  by (simp add: scope_ok_def new_child_def VariableScope_init_def)

lemma setitem_then_getitem:
  assumes "setitem h ms key v = Inr h'"
  shows "getitem h' ms key = Inr v"
proof (cases "find (\<lambda>m. has_key h m key) ms")
  case (Some m)
  from find_has_key_Some[OF Some] obtain a where m: "m = DictRef a" by blast
  from setitem_existing[OF Some[unfolded m], of v] assms
  have "h' = h[a := (h ! a)(key \<mapsto> v)]" by simp
  with getitem_after_update[OF Some[unfolded m], of v] show ?thesis by simp
next
  case None
  with assms obtain m0 rest where ms: "ms = m0 # rest" and st: "store_item h m0 key v = Inr h'"
    by (auto simp: setitem_def setitem_loop_find split: list.splits)
  then obtain a where m0: "m0 = DictRef a" and a: "a < length h"
    and h': "h' = h[a := (h ! a)(key \<mapsto> v)]"
    by (cases m0) (auto split: if_splits)
  show ?thesis using a by (simp add: ms m0 h')
qed

lemma get_callable_exact:
  assumes "getitem h cm (normalize_var name, Some n) = Inr cb"
  shows "get_callable h cm name (Some n) = Inr cb"
  using assms by (simp add: get_callable_def)

lemma get_callable_wildcard:
  assumes "getitem h cm (normalize_var name, Some n) = Inl KeyError"
  shows "get_callable h cm name (Some n) = getitem h cm (normalize_var name, None)"
  using assms by (simp add: get_callable_def)

text \<open>
  Claim C5 (function arity dispatch). A lookup with an explicit arity returns the registration
  found under (normalized name, that arity) when the chain has one; otherwise the one found
  under (normalized name, \<open>None\<close>) when the chain has one; otherwise it raises \<open>KeyError\<close>.
  A callable registered under a name is found under every name that differs from it only in
  hyphens and underscores, and replacing hyphens by underscores does not change the
  normalized name.
\<close>

theorem function_arity_dispatch:
  "(getitem (fun_dicts M) (functions' ns) (normalize_var name1, Some n1) = Inr cb1
      \<longrightarrow> function' M ns name1 (Some n1) = Inr cb1)
 \<and> (getitem (fun_dicts M) (functions' ns) (normalize_var name2, Some n2) = Inl KeyError
      \<and> getitem (fun_dicts M) (functions' ns) (normalize_var name2, None) = Inr cb2
      \<longrightarrow> function' M ns name2 (Some n2) = Inr cb2)
 \<and> (getitem (fun_dicts M) (functions' ns) (normalize_var name3, Some n3) = Inl KeyError
      \<and> getitem (fun_dicts M) (functions' ns) (normalize_var name3, None) = Inl KeyError
      \<longrightarrow> function' M ns name3 (Some n3) = Inl KeyError)
 \<and> (set_function M ns name4 arity cb4 = Inr M' \<and> normalize_var name5 = normalize_var name4
      \<longrightarrow> function' M' ns name5 arity = Inr cb4)
 \<and> normalize_var (map (\<lambda>c. if c = CHR ''-'' then CHR ''_'' else c) name) = normalize_var name"
proof (intro conjI impI)
  assume "getitem (fun_dicts M) (functions' ns) (normalize_var name1, Some n1) = Inr cb1"
  then show "function' M ns name1 (Some n1) = Inr cb1"
    unfolding function'_def by (rule get_callable_exact)
next
  assume "getitem (fun_dicts M) (functions' ns) (normalize_var name2, Some n2) = Inl KeyError
      \<and> getitem (fun_dicts M) (functions' ns) (normalize_var name2, None) = Inr cb2"
  then show "function' M ns name2 (Some n2) = Inr cb2"
    by (simp add: function'_def get_callable_wildcard)
next
  assume "getitem (fun_dicts M) (functions' ns) (normalize_var name3, Some n3) = Inl KeyError
      \<and> getitem (fun_dicts M) (functions' ns) (normalize_var name3, None) = Inl KeyError"
  then show "function' M ns name3 (Some n3) = Inl KeyError"
    by (simp add: function'_def get_callable_wildcard)
next
  assume a: "set_function M ns name4 arity cb4 = Inr M' \<and> normalize_var name5 = normalize_var name4"
  then obtain h' where s: "setitem (fun_dicts M) (functions' ns) (normalize_var name4, arity) cb4 = Inr h'"
    and M': "M' = M\<lparr>fun_dicts := h'\<rparr>"
    by (auto simp: set_function_def set_callable_def split: sum.splits)
  from setitem_then_getitem[OF s] have g: "getitem h' (functions' ns) (normalize_var name5, arity) = Inr cb4"
    using a by simp
  show "function' M' ns name5 arity = Inr cb4"
    using g by (cases arity) (simp_all add: function'_def get_callable_def M')
next
  show "normalize_var (map (\<lambda>c. if c = CHR ''-'' then CHR ''_'' else c) name) = normalize_var name"
    by (simp add: normalize_var_def)
qed


theorem function_arity_dispatch_witness:
  "function' \<lparr>var_dicts = [], fun_dicts = [[(''rgba'', Some 3) \<mapsto> 3::nat, (''rgba'', Some 4) \<mapsto> 4,
        (''foo-bar'', None) \<mapsto> 7]], mix_dicts = ([] :: (string \<times> nat option, nat) heap)\<rparr>
      \<lparr>variables' = [], functions' = [DictRef 0], mixins' = []\<rparr> ''rgba'' (Some 4) = Inr (4::nat)
   \<and> function' \<lparr>var_dicts = [], fun_dicts = [[(''rgba'', Some 3) \<mapsto> 3::nat, (''rgba'', Some 4) \<mapsto> 4,
        (''foo-bar'', None) \<mapsto> 7]], mix_dicts = ([] :: (string \<times> nat option, nat) heap)\<rparr>
      \<lparr>variables' = [], functions' = [DictRef 0], mixins' = []\<rparr> ''foo_bar'' (Some 2) = Inr (7::nat)
   \<and> function' \<lparr>var_dicts = [], fun_dicts = [[(''rgba'', Some 3) \<mapsto> 3::nat, (''rgba'', Some 4) \<mapsto> 4,
        (''foo-bar'', None) \<mapsto> 7]], mix_dicts = ([] :: (string \<times> nat option, nat) heap)\<rparr>
      \<lparr>variables' = [], functions' = [DictRef 0], mixins' = []\<rparr> ''rgba'' (Some 2) = Inl KeyError
   \<and> set_function \<lparr>var_dicts = [], fun_dicts = [Map.empty],
        mix_dicts = ([] :: (string \<times> nat option, nat) heap)\<rparr>
      \<lparr>variables' = [], functions' = [DictRef 0], mixins' = []\<rparr> ''my_fn'' (Some 1) (9::nat)
      = Inr \<lparr>var_dicts = [], fun_dicts = [[(''my-fn'', Some 1) \<mapsto> 9]], mix_dicts = []\<rparr>
   \<and> function' \<lparr>var_dicts = [], fun_dicts = [[(''my-fn'', Some 1) \<mapsto> 9]],
        mix_dicts = ([] :: (string \<times> nat option, nat) heap)\<rparr>
      \<lparr>variables' = [], functions' = [DictRef 0], mixins' = []\<rparr> ''my-fn'' (Some 1) = Inr (9::nat)"
proof -
  let ?M = "\<lparr>var_dicts = [], fun_dicts = [[(''rgba'', Some 3) \<mapsto> 3::nat, (''rgba'', Some 4) \<mapsto> 4,
        (''foo-bar'', None) \<mapsto> 7]], mix_dicts = ([] :: (string \<times> nat option, nat) heap)\<rparr>"
  let ?E = "\<lparr>var_dicts = [], fun_dicts = [Map.empty :: string \<times> nat option \<rightharpoonup> nat],
        mix_dicts = ([] :: (string \<times> nat option, nat) heap)\<rparr>"
  let ?ns = "\<lparr>variables' = [], functions' = [DictRef 0], mixins' = []\<rparr>"
  have ex1: "function' ?M ?ns ''rgba'' (Some 4) = Inr 4"
    using function_arity_dispatch [where M = ?M and ns = ?ns and ?name1.0 = "''rgba''"
        and ?n1.0 = 4 and ?cb1.0 = 4, THEN conjunct1]
    by (simp add: normalize_var_def)
  have wild: "function' ?M ?ns ''foo_bar'' (Some 2) = Inr 7"
    using function_arity_dispatch [where M = ?M and ns = ?ns and ?name2.0 = "''foo_bar''"
        and ?n2.0 = 2 and ?cb2.0 = 7, THEN conjunct2, THEN conjunct1]
    by (simp add: normalize_var_def)
  have miss: "function' ?M ?ns ''rgba'' (Some 2) = Inl KeyError"
    using function_arity_dispatch [where M = ?M and ns = ?ns and ?name3.0 = "''rgba''"
        and ?n3.0 = 2, THEN conjunct2, THEN conjunct2, THEN conjunct1]
    by (simp add: normalize_var_def)
  have reg: "set_function ?E ?ns ''my_fn'' (Some 1) 9
      = Inr \<lparr>var_dicts = [], fun_dicts = [[(''my-fn'', Some 1) \<mapsto> 9]], mix_dicts = []\<rparr>"
    by (simp add: set_function_def set_callable_def setitem_def normalize_var_def)
  have rt: "function' \<lparr>var_dicts = [], fun_dicts = [[(''my-fn'', Some 1) \<mapsto> 9::nat]],
        mix_dicts = ([] :: (string \<times> nat option, nat) heap)\<rparr> ?ns ''my-fn'' (Some 1) = Inr 9"
    using function_arity_dispatch [where M = ?E and ns = ?ns and ?name4.0 = "''my_fn''"
        and arity = "Some 1" and ?cb4.0 = 9 and ?name5.0 = "''my-fn''"
        and M' = "\<lparr>var_dicts = [], fun_dicts = [[(''my-fn'', Some 1) \<mapsto> 9]], mix_dicts = []\<rparr>",
        THEN conjunct2, THEN conjunct2, THEN conjunct2, THEN conjunct1]
      reg
    by (simp add: normalize_var_def)
  from ex1 wild miss reg rt show ?thesis by simp
qed

lemma derive_from_many_lookup:
  assumes "length others \<noteq> 1" and "derive_from M others = (ns, M')"
  shows "variable M' ns name = Inl KeyError"
    and "function' M' ns name arity = Inl KeyError"
    and "mixin M' ns name arity = Inl KeyError"
  using assms
  by (auto simp: derive_from_def Namespace_init_def VariableScope_init_def variable_def
      function'_def mixin_def get_callable_def nth_append Let_def list_ex_iff split: option.splits)

text \<open>
  Claim C9 (derivation from several parents). With one parent the derived namespace finds the
  parent's variable \<open>$x\<close>. With two parents, the first of which holds \<open>$x\<close>, the lookup of
  \<open>$x\<close> in the derived namespace raises \<open>KeyError\<close>: the chains of the parents are not
  searched.
\<close>

theorem derive_from_two_parents_loses_parents:
  "variable \<lparr>var_dicts = [[''$x'' \<mapsto> NumberValue 1 None], [''$y'' \<mapsto> NumberValue 2 None]],
       fun_dicts = [Map.empty, Map.empty] :: (string \<times> nat option, nat) heap,
       mix_dicts = [Map.empty, Map.empty] :: (string \<times> nat option, nat) heap\<rparr>
     \<lparr>variables' = [DictRef 0], functions' = [DictRef 0], mixins' = [DictRef 0]\<rparr> ''$x''
     = Inr (NumberValue 1 None)
   \<and> (case derive_from
         \<lparr>var_dicts = [[''$x'' \<mapsto> NumberValue 1 None], [''$y'' \<mapsto> NumberValue 2 None]],
          fun_dicts = [Map.empty, Map.empty] :: (string \<times> nat option, nat) heap,
          mix_dicts = [Map.empty, Map.empty] :: (string \<times> nat option, nat) heap\<rparr>
         [\<lparr>variables' = [DictRef 0], functions' = [DictRef 0], mixins' = [DictRef 0]\<rparr>]
       of (ns, M') \<Rightarrow> variable M' ns ''$x'') = Inr (NumberValue 1 None)
   \<and> (case derive_from
         \<lparr>var_dicts = [[''$x'' \<mapsto> NumberValue 1 None], [''$y'' \<mapsto> NumberValue 2 None]],
          fun_dicts = [Map.empty, Map.empty] :: (string \<times> nat option, nat) heap,
          mix_dicts = [Map.empty, Map.empty] :: (string \<times> nat option, nat) heap\<rparr>
         [\<lparr>variables' = [DictRef 0], functions' = [DictRef 0], mixins' = [DictRef 0]\<rparr>,
          \<lparr>variables' = [DictRef 1], functions' = [DictRef 1], mixins' = [DictRef 1]\<rparr>]
       of (ns, M') \<Rightarrow> variable M' ns ''$x'') = Inl KeyError"
  by (simp add: derive_from_def Namespace_init_def VariableScope_init_def new_child_def
      variable_def normalize_var_def)

section \<open>Properties: the built-in index\<close>

lemma index_loop_found:
  "i < length xs \<Longrightarrow> equals (xs ! i) val \<Longrightarrow> (\<forall>j<i. \<not> equals (xs ! j) val)
     \<Longrightarrow> index_loop equals xs val k = NumberValue (of_nat (k + i + 1)) None"
proof (induction xs arbitrary: i k)
  case Nil
  then show ?case by simp
next
  case (Cons x xs)
  show ?case
  proof (cases i)
    case 0
    with Cons.prems show ?thesis by simp
  next
    case (Suc i')
    from Cons.prems Suc have nx: "\<not> equals x val" by auto
    from Cons.prems Suc have "i' < length xs" "equals (xs ! i') val" "\<forall>j<i'. \<not> equals (xs ! j) val"
      by auto
    from Cons.IH[OF this, of "k + 1"] nx Suc show ?thesis by simp
  qed
qed

lemma index_loop_absent:
  "(\<forall>x\<in>set xs. \<not> equals x val) \<Longrightarrow> index_loop equals xs val k = BooleanValue False"
  by (induction xs arbitrary: k) auto

text \<open>
  Claim C10 (the built-in \<open>index\<close>). For a list value and a value: when \<open>i\<close> is the first
  position whose item equals the value, the result is the number \<open>i + 1\<close> (positions
  counted from 1); when no item equals the value, the result is boolean false.
\<close>

theorem index_first_position:
  "(i < length items \<and> equals (items ! i) val \<and> (\<forall>j<i. \<not> equals (items ! j) val)
      \<longrightarrow> index equals (ListValue items sep) val = NumberValue (of_nat (i + 1)) None)
 \<and> ((\<forall>x\<in>set items'. \<not> equals x val')
      \<longrightarrow> index equals (ListValue items' sep') val' = BooleanValue False)"
  using index_loop_found [of i items equals val 0] index_loop_absent [of items' equals val' 0]
  by simp

theorem index_first_position_witness:
  "index (=) (ListValue [NumberValue 10 None, NumberValue 20 None, NumberValue 20 None] '','')
       (NumberValue 20 None) = NumberValue 2 None
 \<and> index (=) (ListValue [NumberValue 10 None, NumberValue 20 None] '','') (NumberValue 30 None)
       = BooleanValue False"
  using index_first_position [where i = 1 and equals = "(=)" and val = "NumberValue 20 None"
      and items = "[NumberValue 10 None, NumberValue 20 None, NumberValue 20 None]" and sep = "'',''"
      and items' = "[NumberValue 10 None, NumberValue 20 None]" and val' = "NumberValue 30 None"
      and sep' = "'',''"]
  by simp

section \<open>Properties: fuel\<close>

text \<open>
  The scanner does not run out of fuel. More fuel does not change the result of the parser:
  a parse that did not run out of fuel returns the same tree, or raises the same error, on
  every larger amount.
\<close>

lemma first_match_whitespace:
  "first_match ks allowed inp p = Some (WHITESPACE, n) \<Longrightarrow> 0 < n \<and> p + n \<le> length inp"
proof (induction ks)
  case Nil
  then show ?case by simp
next
  case (Cons k ks)
  show ?case
  proof (cases "k = WHITESPACE")
    case True
    have "span is_blank (drop p inp) \<le> length inp - p"
      unfolding span_def using length_takeWhile_le [of is_blank "drop p inp"] by simp
    with Cons True show ?thesis by (auto split: if_splits option.splits)
  next
    case False
    with Cons show ?thesis by (auto split: if_splits option.splits)
  qed
qed

lemma tokenize_fuel: "length inp - p < fuel \<Longrightarrow> tokenize fuel inp p allowed \<noteq> Inl Diverged"
proof (induction fuel arbitrary: p)
  case 0
  then show ?case by simp
next
  case (Suc fuel)
  show ?case
  proof (cases "first_match patterns allowed inp p")
    case None
    then show ?thesis by simp
  next
    case (Some kn)
    obtain k n where kn: "kn = (k, n)" by (cases kn)
    show ?thesis
    proof (cases "k = WHITESPACE")
      case True
      with Some kn first_match_whitespace [of patterns allowed inp p n]
      have "0 < n" "p + n \<le> length inp" by auto
      with Suc.prems have "length inp - (p + n) < fuel" by simp
      from Suc.IH[OF this] Some kn True show ?thesis by simp
    next
      case False
      with Some kn show ?thesis by simp
    qed
  qed
qed

lemma Scanner_token_fuel: "Scanner_token S i restrict \<noteq> Inl Diverged"
proof -
  have "tokenize (length (input S) + 2) (input S) (pos S) restrict \<noteq> Inl Diverged"
    by (rule tokenize_fuel) simp
  then show ?thesis by (auto simp: Scanner_token_def split: sum.splits)
qed

lemma settles_refl: "settles a a"
  by (simp add: settles_def)

lemma settles_and_then:
  "settles m m' \<Longrightarrow> (\<And>a s. settles (f a s) (f' a s)) \<Longrightarrow> settles (and_then m f) (and_then m' f')"
  by (auto simp: settles_def and_then_def split: sum.splits)

lemma settles_if:
  "settles a a' \<Longrightarrow> settles b b' \<Longrightarrow> settles (if c then a else b) (if c then a' else b')"
  by simp

lemma settles_argspec_item:
  "(\<And>P. settles (g P) (g' P)) \<Longrightarrow> settles (argspec_item g P) (argspec_item g' P)"
  unfolding argspec_item_def
  by (intro settles_and_then settles_if settles_refl)

lemma run_settles: "settles (run cn n r P) (run cn (Suc n) r P)"
proof (induction n arbitrary: r P)
  case 0
  show ?case by (simp add: settles_def)
next
  case (Suc n)
  note IH = Suc.IH
  show ?case
    apply (subst (1 2) run.simps(2))
    apply (cases r; simp only: rule.case)
    apply (intro settles_and_then settles_if settles_refl settles_argspec_item IH)+
    done
qed


lemma run_fuel:
  assumes "run cn n r P \<noteq> Inl Diverged" and "n \<le> m"
  shows "run cn m r P = run cn n r P"
  using assms(2)
proof (induction m)
  case 0
  then show ?case by simp
next
  case (Suc m)
  show ?case
  proof (cases "n = Suc m")
    case True
    then show ?thesis by simp
  next
    case False
    with Suc.prems have "n \<le> m" by simp
    from Suc.IH[OF this] assms(1) run_settles [of cn m r P] show ?thesis
      by (simp add: settles_def)
  qed
qed

lemma parse_fuel:
  assumes "parse cn n s \<noteq> Inl Diverged" and "n \<le> m"
  shows "parse cn m s = parse cn n s"
proof -
  from assms(1) have "run cn n Expr_lst (Parser_reset s) \<noteq> Inl Diverged"
    by (auto simp: parse_def goal_def expr_lst_def and_then_def)
  from run_fuel[OF this assms(2)] show ?thesis
    by (simp add: parse_def goal_def expr_lst_def)
qed

lemma parse_fuel_Inr: "parse cn n s = Inr ast \<Longrightarrow> n \<le> m \<Longrightarrow> parse cn m s = Inr ast"
  using parse_fuel [of cn n s m] by simp

lemma parse_fuel_SyntaxError:
  "parse cn n s = Inl SyntaxError \<Longrightarrow> n \<le> m \<Longrightarrow> parse cn m s = Inl SyntaxError"
  using parse_fuel [of cn n s m] by simp

text \<open>
  The evaluator is monotone in its fuel as well: once \<open>evaluate\<close> or
  \<open>evaluate_expression\<close> returns anything but \<open>Diverged\<close>, every larger fuel
  returns the same result and the same state.
\<close>

lemma settles_map_m:
  "(\<And>x s. settles (f x s) (f' x s)) \<Longrightarrow> settles (map_m f xs s) (map_m f' xs s)"
proof (induction xs arbitrary: s)
  case Nil
  show ?case by (simp add: settles_refl)
next
  case (Cons x xs)
  show ?case
    unfolding map_m.simps
    by (intro settles_and_then Cons settles_refl)
qed

lemma settles_eval_pair:
  "(\<And>e s. settles (ev e s) (ev' e s)) \<Longrightarrow> settles (eval_pair ev a s) (eval_pair ev' a s)"
  unfolding eval_pair_def by (intro settles_and_then settles_refl)

lemma settles_case_sum:
  "(\<And>a. settles (f a) (f' a)) \<Longrightarrow> (\<And>b. settles (g b) (g' b))
     \<Longrightarrow> settles (case x of Inl a \<Rightarrow> f a | Inr b \<Rightarrow> g b) (case x of Inl a \<Rightarrow> f' a | Inr b \<Rightarrow> g' b)"
  by (cases x) auto

lemma settles_case_option:
  "settles a a' \<Longrightarrow> (\<And>b. settles (g b) (g' b))
     \<Longrightarrow> settles (case x of None \<Rightarrow> a | Some b \<Rightarrow> g b) (case x of None \<Rightarrow> a' | Some b \<Rightarrow> g' b)"
  by (cases x) auto

lemma settles_case_PyStr:
  "(\<And>s. settles (g s) (g' s)) \<Longrightarrow>
     settles (case v of NumberValue a b \<Rightarrow> f1 a b | ColorValue c \<Rightarrow> f2 c | String a b \<Rightarrow> f3 a b
                | BooleanValue b \<Rightarrow> f4 b | Null \<Rightarrow> f5 | ListValue a b \<Rightarrow> f6 a b | PyStr s \<Rightarrow> g s)
             (case v of NumberValue a b \<Rightarrow> f1 a b | ColorValue c \<Rightarrow> f2 c | String a b \<Rightarrow> f3 a b
                | BooleanValue b \<Rightarrow> f4 b | Null \<Rightarrow> f5 | ListValue a b \<Rightarrow> f6 a b | PyStr s \<Rightarrow> g' s)"
  by (cases v) (auto simp: settles_refl)

lemma settles_case_ArgspecLiteral:
  "(\<And>ps. settles (g ps) (g' ps)) \<Longrightarrow>
     settles (case a of Parentheses c \<Rightarrow> f1 c | UnaryOp u c \<Rightarrow> f2 u c | BinaryOp b l r \<Rightarrow> f3 b l r
                | AnyOp es \<Rightarrow> f4 es | AllOp es \<Rightarrow> f5 es | NotOp c \<Rightarrow> f6 c | CallOp f c \<Rightarrow> f7 f c
                | Literal v \<Rightarrow> f8 v | Variable x \<Rightarrow> f9 x | ListLiteral es c \<Rightarrow> f10 es c
                | ArgspecLiteral ps \<Rightarrow> g ps)
             (case a of Parentheses c \<Rightarrow> f1 c | UnaryOp u c \<Rightarrow> f2 u c | BinaryOp b l r \<Rightarrow> f3 b l r
                | AnyOp es \<Rightarrow> f4 es | AllOp es \<Rightarrow> f5 es | NotOp c \<Rightarrow> f6 c | CallOp f c \<Rightarrow> f7 f c
                | Literal v \<Rightarrow> f8 v | Variable x \<Rightarrow> f9 x | ListLiteral es c \<Rightarrow> f10 es c
                | ArgspecLiteral ps \<Rightarrow> g' ps)"
  by (cases a) (auto simp: settles_refl)

lemma parse_settles: "settles (parse cn n s) (parse cn (Suc n) s)"
  using parse_fuel [of cn n s "Suc n"] by (auto simp: settles_def)

lemma evaluate_settles:
  "settles (evaluate X C n e d st) (evaluate X C (Suc n) e d st)
 \<and> settles (evaluate_expression X C n x st) (evaluate_expression X C (Suc n) x st)"
proof (induction n arbitrary: e d st x)
  case 0
  show ?case by (simp add: settles_def evaluate.simps evaluate_expression.simps)
next
  case (Suc n)
  have E: "\<And>e d st. settles (evaluate X C n e d st) (evaluate X C (Suc n) e d st)"
    using Suc.IH by blast
  have V: "\<And>x st. settles (evaluate_expression X C n x st) (evaluate_expression X C (Suc n) x st)"
    using Suc.IH by blast
  have ev: "settles (evaluate X C (Suc n) e d st) (evaluate X C (Suc (Suc n)) e d st)"
    apply (subst (1 2) evaluate.simps(2))
    apply (cases e; simp only: expr.case)
    apply (intro settles_and_then settles_if settles_map_m settles_eval_pair settles_refl
        settles_case_sum settles_case_PyStr settles_case_ArgspecLiteral E V)+
    done
  have ex: "settles (evaluate_expression X C (Suc n) x st) (evaluate_expression X C (Suc (Suc n)) x st)"
  proof (cases x)
    case (PyStr s)
    show ?thesis
    proof (cases "variable (memory_of C) (namespace C) s")
      case (Inr v)
      then show ?thesis by (simp add: PyStr evaluate_expression.simps settles_refl)
    next
      case (Inl err)
      show ?thesis
      proof (cases "err = KeyError")
        case False
        with Inl show ?thesis by (cases err) (simp_all add: PyStr evaluate_expression.simps settles_refl)
      next
        case True
        show ?thesis
        proof (cases "ast_cache st s")
          case (Some ast)
          with Inl True show ?thesis
            by (simp add: PyStr evaluate_expression.simps)
               (intro settles_and_then settles_refl E)
        next
          case None
          show ?thesis
          proof (cases "parse (COLOR_NAMES X) n s = Inl Diverged")
            case d: True
            with Inl True None show ?thesis
              by (simp add: PyStr evaluate_expression.simps settles_def)
          next
            case False
            with parse_settles [of "COLOR_NAMES X" n s]
            have same: "parse (COLOR_NAMES X) (Suc n) s = parse (COLOR_NAMES X) n s"
              by (simp add: settles_def)
            show ?thesis
            proof (cases "parse (COLOR_NAMES X) n s")
              case perr: (Inl pe)
              with Inl True None same show ?thesis
                by (cases pe) (simp_all add: PyStr evaluate_expression.simps settles_refl)
            next
              case (Inr ast)
              with Inl True None same show ?thesis
                by (simp add: PyStr evaluate_expression.simps)
                   (intro settles_and_then settles_refl E)
            qed
          qed
        qed
      qed
    qed
  qed (simp_all add: evaluate_expression.simps settles_refl)
  from ev ex show ?case by blast
qed

lemma evaluate_fuel:
  assumes "evaluate X C n e d st \<noteq> Inl Diverged" and "n \<le> m"
  shows "evaluate X C m e d st = evaluate X C n e d st"
  using assms(2)
proof (induction m)
  case 0
  then show ?case by simp
next
  case (Suc m)
  show ?case
  proof (cases "n = Suc m")
    case True
    then show ?thesis by simp
  next
    case False
    with Suc.prems have "n \<le> m" by simp
    from Suc.IH[OF this] assms(1) evaluate_settles [of X C m e d st] show ?thesis
      by (simp add: settles_def)
  qed
qed

lemma evaluate_expression_fuel:
  assumes "evaluate_expression X C n x st \<noteq> Inl Diverged" and "n \<le> m"
  shows "evaluate_expression X C m x st = evaluate_expression X C n x st"
  using assms(2)
proof (induction m)
  case 0
  then show ?case by simp
next
  case (Suc m)
  show ?case
  proof (cases "n = Suc m")
    case True
    then show ?thesis by simp
  next
    case False
    with Suc.prems have "n \<le> m" by simp
    from Suc.IH[OF this] assms(1) evaluate_settles [of X C m _ _ st x] show ?thesis
      by (simp add: settles_def)
  qed
qed


section \<open>Properties: the parser\<close>

text \<open>
  Claim C8 as stated fails: the text \<open>1-2\<close> does not parse as a subtraction. Its minus is
  not followed by whitespace, so it is the token \<open>SIGN\<close>, and the text parses as the
  space-separated list of \<open>1\<close> and the negation of \<open>2\<close>.
\<close>

theorem minus_without_space_counterexample:
  "parse [] 40 ''1-2''
     = Inr (ListLiteral [Literal (NumberValue 1 None), UnaryOp op_neg (Literal (NumberValue 2 None))] False)"
  by code_simp

text \<open>
  Claim C8, amended (minus disambiguation). On enough fuel (40 units or more), the text
  \<open>1 - 2\<close>, whose minus is followed by whitespace, parses as the subtraction of \<open>2\<close> from
  \<open>1\<close>: after the number the scanner skips the whitespace and finds \<open>SUB\<close>. In \<open>1-2\<close> the
  scanner finds \<open>SIGN\<close> after the number, and the text parses as the space-separated list of
  \<open>1\<close> and the negation of \<open>2\<close>. The text \<open>-moz\<close> is the single token \<open>ID\<close>, and parses as
  the literal of that bareword.
\<close>

lemma parse_minus_examples:
  "parse cn 40 ''1 - 2''
     = Inr (BinaryOp op_sub (Literal (NumberValue 1 None)) (Literal (NumberValue 2 None)))"
  "parse cn 40 ''1-2''
     = Inr (ListLiteral [Literal (NumberValue 1 None), UnaryOp op_neg (Literal (NumberValue 2 None))] False)"
  "parse cn 40 ''-moz'' = Inr (Literal (parse_bareword cn ''-moz''))"
  by code_simp+

theorem minus_disambiguation:
  "(40 \<le> n \<longrightarrow>
      parse cn n ''1 - 2''
        = Inr (BinaryOp op_sub (Literal (NumberValue 1 None)) (Literal (NumberValue 2 None)))
    \<and> parse cn n ''1-2''
        = Inr (ListLiteral [Literal (NumberValue 1 None), UnaryOp op_neg (Literal (NumberValue 2 None))] False)
    \<and> parse cn n ''-moz'' = Inr (Literal (parse_bareword cn ''-moz'')))
 \<and> first_match patterns atom_rsts' ''1 - 2'' 1 = Some (WHITESPACE, 1)
 \<and> first_match patterns atom_rsts' ''1 - 2'' 2 = Some (SUB, 2)
 \<and> first_match patterns atom_rsts' ''1-2'' 1 = Some (SIGN, 1)
 \<and> Scanner_token (Scanner_reset ''-moz'') 0 u_expr_rsts
     = Inr (\<lparr>position = 0, kind_of = ID, text_of = ''-moz''\<rparr>,
            \<lparr>input = ''-moz'', pos = 4, tokens = [\<lparr>position = 0, kind_of = ID, text_of = ''-moz''\<rparr>]\<rparr>)"
proof -
  have scanner: "first_match patterns atom_rsts' ''1 - 2'' 1 = Some (WHITESPACE, 1)
     \<and> first_match patterns atom_rsts' ''1 - 2'' 2 = Some (SUB, 2)
     \<and> first_match patterns atom_rsts' ''1-2'' 1 = Some (SIGN, 1)
     \<and> Scanner_token (Scanner_reset ''-moz'') 0 u_expr_rsts
         = Inr (\<lparr>position = 0, kind_of = ID, text_of = ''-moz''\<rparr>,
                \<lparr>input = ''-moz'', pos = 4,
                   tokens = [\<lparr>position = 0, kind_of = ID, text_of = ''-moz''\<rparr>]\<rparr>)"
    by code_simp
  with parse_minus_examples [THEN parse_fuel_Inr, of n cn] show ?thesis by simp
qed

theorem minus_disambiguation_witness:
  "parse [] 40 ''1 - 2''
     = Inr (BinaryOp op_sub (Literal (NumberValue 1 None)) (Literal (NumberValue 2 None)))
 \<and> parse [] 40 ''1-2''
     = Inr (ListLiteral [Literal (NumberValue 1 None), UnaryOp op_neg (Literal (NumberValue 2 None))] False)
 \<and> parse [] 40 ''-moz'' = Inr (Literal (String ''-moz'' None))"
  using minus_disambiguation [of 40 "[]"] by (simp add: parse_bareword_def)

section \<open>Properties: evaluation\<close>









lemma and_then_Inr_iff:
  "and_then m f = Inr (b, s') \<longleftrightarrow> (\<exists>a s1. m = Inr (a, s1) \<and> f a s1 = Inr (b, s'))"
  by (auto simp: and_then_def split: sum.splits)


lemma render_of_value: "is_sass_value v \<Longrightarrow> render_of X v = Inr (render X v)"
  by (cases v) (simp_all add: is_sass_value_def render_of_def)

lemma render_args_values:
  "list_all (\<lambda>a. is_sass_value (snd a)) evald \<Longrightarrow>
     map_m (\<lambda>a s. lift (render_arg X a) s) evald st
       = Inr (map (\<lambda>a. case fst a of None \<Rightarrow> render X (snd a)
                                   | Some var \<Rightarrow> var @ '': '' @ render X (snd a)) evald, st)"
  by (induction evald)
     (auto simp: and_then_def lift_def render_arg_def render_of_value split: option.splits)

lemma call_function_passthrough:
  assumes "function' (memory_of C) (namespace C) func_name (Some k) = Inl KeyError"
    and "list_all (\<lambda>a. is_sass_value (snd a)) evald"
  shows "call_function X C func_name k evald st
     = Inr (String (func_name @ ''('' @ join '', ''
              (map (\<lambda>a. case fst a of None \<Rightarrow> render X (snd a)
                                   | Some var \<Rightarrow> var @ '': '' @ render X (snd a)) evald) @ '')'') None,
            if is_builtin_css_function X func_name then st
            else st\<lparr>warnings := warnings st @ [''no such function'']\<rparr>)"
  using assms by (simp add: call_function_def render_args_values and_then_def Let_def)

lemmas sample_defs =
  sample_externals_def sample_calculator_def initial_state_def sample_render_def sample_binary_def
  tick_def

lemmas lookup_defs =
  variable_def function'_def get_callable_def normalize_var_def

lemmas eval_defs =
  evaluate.simps evaluate_expression.simps eval_pair_def and_then_def lift_def call_function_def
  render_arg_def render_of_def truth_of_def args_of_def kwargs_of_def join_def is_Literal_def

text \<open>
  Claim C3 as stated fails: a call whose lookup fails can raise. The arguments are evaluated
  before the lookup, outside the \<open>try\<close>; in \<open>foo($y)\<close> with no function \<open>foo\<close> and no
  variable \<open>$y\<close>, the evaluation of the argument raises \<open>KeyError\<close>.
\<close>

theorem unknown_function_raises_counterexample:
  "function' (memory_of (sample_calculator Null)) (namespace (sample_calculator Null)) ''foo'' (Some 1)
     = Inl KeyError
 \<and> parse [] 40 ''foo($y)'' = Inr (CallOp ''foo'' (ArgspecLiteral [(None, Variable ''$y'')]))
 \<and> evaluate sample_externals (sample_calculator Null) 3
       (CallOp ''foo'' (ArgspecLiteral [(None, Variable ''$y'')])) False initial_state
     = Inl KeyError"
proof -
  have "parse [] 40 ''foo($y)'' = Inr (CallOp ''foo'' (ArgspecLiteral [(None, Variable ''$y'')]))"
    by code_simp
  moreover have "function' (memory_of (sample_calculator Null)) (namespace (sample_calculator Null))
      ''foo'' (Some 1) = Inl KeyError"
    by (simp add: sample_defs lookup_defs)
  moreover have "evaluate sample_externals (sample_calculator Null) 3
       (CallOp ''foo'' (ArgspecLiteral [(None, Variable ''$y'')])) False initial_state
     = Inl KeyError"
    by (simp add: eval_nat_numeral eval_defs sample_defs lookup_defs)
  ultimately show ?thesis by simp
qed

text \<open>
  Claim C3, amended (unknown function passthrough). For a call whose arguments all evaluate
  without raising, to Sass values, and whose lookup of (name, number of arguments) fails:
  the evaluation returns the unquoted string \<open>name(arg, ..., $key: arg, ...)\<close> of the rendered
  arguments, a named argument rendered as its name, a colon and its value; the state is the
  one after the arguments, with the warning added exactly when the name is not a built-in CSS
  function name.
\<close>

theorem unknown_function_passthrough:
  "map_m (eval_pair (\<lambda>e st. evaluate X C n e True st)) argpairs st = Inr (evald, st1)
   \<and> list_all (\<lambda>a. is_sass_value (snd a)) evald
   \<and> function' (memory_of C) (namespace C) func_name (Some (length argpairs)) = Inl KeyError
   \<longrightarrow> evaluate X C (Suc n) (CallOp func_name (ArgspecLiteral argpairs)) d st
     = Inr (String (func_name @ ''('' @ join '', ''
              (map (\<lambda>a. case fst a of None \<Rightarrow> render X (snd a)
                                   | Some var \<Rightarrow> var @ '': '' @ render X (snd a)) evald) @ '')'') None,
            if is_builtin_css_function X func_name then st1
            else st1\<lparr>warnings := warnings st1 @ [''no such function'']\<rparr>)"
proof
  assume h: "map_m (eval_pair (\<lambda>e st. evaluate X C n e True st)) argpairs st = Inr (evald, st1)
   \<and> list_all (\<lambda>a. is_sass_value (snd a)) evald
   \<and> function' (memory_of C) (namespace C) func_name (Some (length argpairs)) = Inl KeyError"
  have "evaluate X C (Suc n) (CallOp func_name (ArgspecLiteral argpairs)) d st
      = call_function X C func_name (length argpairs) evald st1"
    using h by (subst evaluate.simps(2)) (simp add: and_then_def)
  with h show "evaluate X C (Suc n) (CallOp func_name (ArgspecLiteral argpairs)) d st
     = Inr (String (func_name @ ''('' @ join '', ''
              (map (\<lambda>a. case fst a of None \<Rightarrow> render X (snd a)
                                   | Some var \<Rightarrow> var @ '': '' @ render X (snd a)) evald) @ '')'') None,
            if is_builtin_css_function X func_name then st1
            else st1\<lparr>warnings := warnings st1 @ [''no such function'']\<rparr>)"
    by (simp add: call_function_passthrough)
qed

lemma sample_foo_args:
  "map_m (eval_pair (\<lambda>e st. evaluate sample_externals (sample_calculator (NumberValue 2 None)) 2 e True st))
     [(None, Literal (NumberValue 1 None)), (Some ''$key'', Variable ''$x'')] initial_state
   = Inr ([(None, NumberValue 1 None), (Some ''$key'', NumberValue 2 None)], initial_state)"
  by (simp add: eval_nat_numeral eval_defs sample_defs lookup_defs)

lemma sample_foo_lookup:
  "function' (memory_of (sample_calculator (NumberValue 2 None)))
     (namespace (sample_calculator (NumberValue 2 None))) ''foo'' (Some (length
       [(None, Literal (NumberValue 1 None)), (Some ''$key'', Variable ''$x'')])) = Inl KeyError"
  "function' (memory_of (sample_calculator (NumberValue 2 None)))
     (namespace (sample_calculator (NumberValue 2 None))) ''url'' (Some (length
       [(None, Literal (NumberValue 1 None)), (Some ''$key'', Variable ''$x'')])) = Inl KeyError"
  by (simp_all add: sample_defs lookup_defs)

theorem unknown_function_passthrough_witness:
  "parse [] 40 ''foo(1, $key: $x)''
     = Inr (CallOp ''foo'' (ArgspecLiteral [(None, Literal (NumberValue 1 None)), (Some ''$key'', Variable ''$x'')]))
 \<and> evaluate sample_externals (sample_calculator (NumberValue 2 None)) 3
       (CallOp ''foo'' (ArgspecLiteral [(None, Literal (NumberValue 1 None)), (Some ''$key'', Variable ''$x'')]))
       False initial_state
     = Inr (String ''foo(1, $key: 2)'' None, initial_state\<lparr>warnings := [''no such function'']\<rparr>)
 \<and> evaluate sample_externals (sample_calculator (NumberValue 2 None)) 3
       (CallOp ''url'' (ArgspecLiteral [(None, Literal (NumberValue 1 None)), (Some ''$key'', Variable ''$x'')]))
       False initial_state
     = Inr (String ''url(1, $key: 2)'' None, initial_state)"
proof -
  have p: "parse [] 40 ''foo(1, $key: $x)''
     = Inr (CallOp ''foo'' (ArgspecLiteral [(None, Literal (NumberValue 1 None)), (Some ''$key'', Variable ''$x'')]))"
    by code_simp
  have ok: "list_all (\<lambda>a. is_sass_value (snd a)) [(None, NumberValue 1 None), (Some ''$key'', NumberValue 2 None)]"
    by (simp add: is_sass_value_def)
  note foo = unknown_function_passthrough [where X = sample_externals
        and C = "sample_calculator (NumberValue 2 None)" and n = 2 and st = initial_state
        and ?st1.0 = initial_state and func_name = "''foo''" and d = False
        and argpairs = "[(None, Literal (NumberValue 1 None)), (Some ''$key'', Variable ''$x'')]"
        and evald = "[(None, NumberValue 1 None), (Some ''$key'', NumberValue 2 None)]",
        THEN mp, OF conjI [OF sample_foo_args conjI [OF ok sample_foo_lookup(1)]]]
  note url = unknown_function_passthrough [where X = sample_externals
        and C = "sample_calculator (NumberValue 2 None)" and n = 2 and st = initial_state
        and ?st1.0 = initial_state and func_name = "''url''" and d = False
        and argpairs = "[(None, Literal (NumberValue 1 None)), (Some ''$key'', Variable ''$x'')]"
        and evald = "[(None, NumberValue 1 None), (Some ''$key'', NumberValue 2 None)]",
        THEN mp, OF conjI [OF sample_foo_args conjI [OF ok sample_foo_lookup(2)]]]
  have r: "render sample_externals = sample_render"
    and b: "is_builtin_css_function sample_externals ''url''" "\<not> is_builtin_css_function sample_externals ''foo''"
    by (simp_all add: sample_externals_def)
  from p foo url show ?thesis
    by (simp add: r b sample_render_def join_def initial_state_def)
qed

lemma map_m_length: "map_m f xs s = Inr (ys, s') \<Longrightarrow> length ys = length xs"
proof (induction xs arbitrary: s ys s')
  case Nil
  then show ?case by simp
next
  case (Cons x xs)
  then show ?case by (fastforce simp: and_then_Inr_iff)
qed

lemma map_m_snoc:
  "map_m f (xs @ [y]) s
     = and_then (map_m f xs s) (\<lambda>vs s. and_then (f y s) (\<lambda>v s. Inr (vs @ [v], s)))"
  by (induction xs arbitrary: s) (auto simp: and_then_def split: sum.splits)

text \<open>
  Claim C4 (logical non-short-circuit). An any, all or not node first evaluates every operand,
  each with the divide flag true, from left to right, each in the state the one before left;
  when they have returned the values \<open>vs\<close>, the result is the boolean of the disjunction,
  conjunction or negation of their truth values, in the state after the last operand. For two
  operands: the second is evaluated in the state after the first, whatever the truth value of
  the first. The last operand of a list is evaluated whenever the ones before it returned.
\<close>

theorem logical_non_short_circuit:
  "(map_m (\<lambda>operand st. evaluate X C n operand True st) operands st = Inr (vs, st1) \<longrightarrow>
      evaluate X C (Suc n) (AnyOp operands) d st = Inr (BooleanValue (list_ex (truth_of X) vs), st1)
    \<and> evaluate X C (Suc n) (AllOp operands) d st = Inr (BooleanValue (list_all (truth_of X) vs), st1)
    \<and> length vs = length operands)
 \<and> (evaluate X C n a True st = Inr (va, sa) \<and> evaluate X C n b True sa = Inr (vb, sb) \<longrightarrow>
      evaluate X C (Suc n) (AnyOp [a, b]) d st
        = Inr (BooleanValue (truth_of X va \<or> truth_of X vb), sb)
    \<and> evaluate X C (Suc n) (AllOp [a, b]) d st
        = Inr (BooleanValue (truth_of X va \<and> truth_of X vb), sb))
 \<and> (evaluate X C n operand True st = Inr (v, s1) \<longrightarrow>
      evaluate X C (Suc n) (NotOp operand) d st = Inr (BooleanValue (\<not> truth_of X v), s1))
 \<and> map_m f (xs @ [y]) s
      = and_then (map_m f xs s) (\<lambda>vs s. and_then (f y s) (\<lambda>v s. Inr (vs @ [v], s)))"
proof (intro conjI impI)
  assume h: "map_m (\<lambda>operand st. evaluate X C n operand True st) operands st = Inr (vs, st1)"
  show "evaluate X C (Suc n) (AnyOp operands) d st = Inr (BooleanValue (list_ex (truth_of X) vs), st1)"
    by (subst evaluate.simps(2)) (simp add: h and_then_def)
  show "evaluate X C (Suc n) (AllOp operands) d st = Inr (BooleanValue (list_all (truth_of X) vs), st1)"
    by (subst evaluate.simps(2)) (simp add: h and_then_def)
  show "length vs = length operands" using h by (rule map_m_length)
next
  assume h: "evaluate X C n a True st = Inr (va, sa) \<and> evaluate X C n b True sa = Inr (vb, sb)"
  show "evaluate X C (Suc n) (AnyOp [a, b]) d st
        = Inr (BooleanValue (truth_of X va \<or> truth_of X vb), sb)"
    by (subst evaluate.simps(2)) (simp add: h and_then_def)
  show "evaluate X C (Suc n) (AllOp [a, b]) d st
        = Inr (BooleanValue (truth_of X va \<and> truth_of X vb), sb)"
    by (subst evaluate.simps(2)) (simp add: h and_then_def)
next
  assume h: "evaluate X C n operand True st = Inr (v, s1)"
  show "evaluate X C (Suc n) (NotOp operand) d st = Inr (BooleanValue (\<not> truth_of X v), s1)"
    by (subst evaluate.simps(2)) (simp add: h and_then_def)
next
  show "map_m f (xs @ [y]) s
      = and_then (map_m f xs s) (\<lambda>vs s. and_then (f y s) (\<lambda>v s. Inr (vs @ [v], s)))"
    by (rule map_m_snoc)
qed

lemma sample_tick:
  "evaluate sample_externals (sample_calculator Null) 2 (CallOp ''tick'' (ArgspecLiteral [])) True st
     = Inr (BooleanValue False, st\<lparr>world := Suc (world st)\<rparr>)"
  by (simp add: eval_nat_numeral eval_defs sample_defs lookup_defs)

lemma sample_literal:
  "evaluate sample_externals (sample_calculator Null) 2 (Literal v) True st = Inr (v, st)"
  by (simp add: eval_nat_numeral eval_defs)

theorem logical_non_short_circuit_witness:
  "parse [] 40 ''true or tick()''
     = Inr (AnyOp [Literal (BooleanValue True), CallOp ''tick'' (ArgspecLiteral [])])
 \<and> evaluate sample_externals (sample_calculator Null) 3
       (AnyOp [Literal (BooleanValue True), CallOp ''tick'' (ArgspecLiteral [])]) False initial_state
     = Inr (BooleanValue True, initial_state\<lparr>world := 1\<rparr>)
 \<and> evaluate sample_externals (sample_calculator Null) 3
       (AllOp [Literal (BooleanValue False), CallOp ''tick'' (ArgspecLiteral [])]) False initial_state
     = Inr (BooleanValue False, initial_state\<lparr>world := 1\<rparr>)
 \<and> evaluate sample_externals (sample_calculator Null) 3
       (NotOp (CallOp ''tick'' (ArgspecLiteral []))) False initial_state
     = Inr (BooleanValue True, initial_state\<lparr>world := 1\<rparr>)
 \<and> evaluate sample_externals (sample_calculator Null) 3
       (AnyOp [Literal (BooleanValue True), CallOp ''tick'' (ArgspecLiteral []),
               CallOp ''tick'' (ArgspecLiteral [])]) False initial_state
     = Inr (BooleanValue True, initial_state\<lparr>world := 2\<rparr>)"
proof -
  have p: "parse [] 40 ''true or tick()''
     = Inr (AnyOp [Literal (BooleanValue True), CallOp ''tick'' (ArgspecLiteral [])])"
    by code_simp
  note T = logical_non_short_circuit [where X = sample_externals and C = "sample_calculator Null"
      and n = 2 and st = initial_state and d = False and b = "CallOp ''tick'' (ArgspecLiteral [])"
      and sa = initial_state and vb = "BooleanValue False" and sb = "initial_state\<lparr>world := 1\<rparr>"
      and operand = "CallOp ''tick'' (ArgspecLiteral [])" and v = "BooleanValue False"
      and ?s1.0 = "initial_state\<lparr>world := 1\<rparr>"]
  have tk: "evaluate sample_externals (sample_calculator Null) 2 (CallOp ''tick'' (ArgspecLiteral [])) True
      initial_state = Inr (BooleanValue False, initial_state\<lparr>world := 1\<rparr>)"
    by (simp add: sample_tick initial_state_def)
  have any: "evaluate sample_externals (sample_calculator Null) 3
       (AnyOp [Literal (BooleanValue True), CallOp ''tick'' (ArgspecLiteral [])]) False initial_state
     = Inr (BooleanValue True, initial_state\<lparr>world := 1\<rparr>)"
    using T [where a = "Literal (BooleanValue True)" and va = "BooleanValue True",
        THEN conjunct2, THEN conjunct1, THEN mp, OF conjI [OF sample_literal tk], THEN conjunct1]
    by (simp add: truth_of_def sample_externals_def)
  have all: "evaluate sample_externals (sample_calculator Null) 3
       (AllOp [Literal (BooleanValue False), CallOp ''tick'' (ArgspecLiteral [])]) False initial_state
     = Inr (BooleanValue False, initial_state\<lparr>world := 1\<rparr>)"
    using T [where a = "Literal (BooleanValue False)" and va = "BooleanValue False",
        THEN conjunct2, THEN conjunct1, THEN mp, OF conjI [OF sample_literal tk], THEN conjunct2]
    by (simp add: truth_of_def sample_externals_def)
  have nt: "evaluate sample_externals (sample_calculator Null) 3
       (NotOp (CallOp ''tick'' (ArgspecLiteral []))) False initial_state
     = Inr (BooleanValue True, initial_state\<lparr>world := 1\<rparr>)"
    using T [THEN conjunct2, THEN conjunct2, THEN conjunct1, THEN mp, OF tk]
    by (simp add: truth_of_def sample_externals_def)
  have ops: "map_m (\<lambda>operand st. evaluate sample_externals (sample_calculator Null) 2 operand True st)
       [Literal (BooleanValue True), CallOp ''tick'' (ArgspecLiteral []),
        CallOp ''tick'' (ArgspecLiteral [])] initial_state
     = Inr ([BooleanValue True, BooleanValue False, BooleanValue False], initial_state\<lparr>world := 2\<rparr>)"
    by (simp add: sample_tick sample_literal and_then_def initial_state_def)
  have any3: "evaluate sample_externals (sample_calculator Null) 3
       (AnyOp [Literal (BooleanValue True), CallOp ''tick'' (ArgspecLiteral []),
               CallOp ''tick'' (ArgspecLiteral [])]) False initial_state
     = Inr (BooleanValue True, initial_state\<lparr>world := 2\<rparr>)"
    using T [where operands = "[Literal (BooleanValue True), CallOp ''tick'' (ArgspecLiteral []),
          CallOp ''tick'' (ArgspecLiteral [])]"
        and vs = "[BooleanValue True, BooleanValue False, BooleanValue False]"
        and ?st1.0 = "initial_state\<lparr>world := 2\<rparr>",
        THEN conjunct1, THEN mp, OF ops, THEN conjunct1]
    by (simp add: truth_of_def sample_externals_def)
  from p any all nt any3 show ?thesis by simp
qed

section \<open>Properties: the expression cache and the calculator\<close>

















end
